theory Spec2Isabelle
  imports Main "HOL-Library.Sublist"
begin

section \<open>Values of the host language\<close>

text \<open>
  The resolvers of \<^verbatim>\<open>src/api/schema.js\<close> raise plain \<^verbatim>\<open>Error\<close> objects with a message;
  the runtime itself raises \<^verbatim>\<open>TypeError\<close> (a property read on \<^verbatim>\<open>undefined\<close>) and
  \<^verbatim>\<open>SyntaxError\<close> (\<^verbatim>\<open>JSON.parse\<close>).
\<close>

datatype js_error = Error string | TypeError string | SyntaxError string

text \<open>
  An optional GraphQL \<^verbatim>\<open>Int\<close> argument (\<^verbatim>\<open>offset: Int\<close>, \<^verbatim>\<open>limit: Int\<close>): left out of the
  query it is \<^verbatim>\<open>undefined\<close>, it may be given as \<^verbatim>\<open>null\<close>, and otherwise it is an integer.
\<close>

datatype js_int = Undefined | Null | Num int

text \<open>
  The relational operators \<^verbatim>\<open><\<close> and \<^verbatim>\<open>>\<close> against a number literal: the operand is
  converted with ToNumber, \<^verbatim>\<open>undefined\<close> becomes NaN (every comparison with NaN is false)
  and \<^verbatim>\<open>null\<close> becomes 0.
\<close>

definition js_lt :: "js_int \<Rightarrow> int \<Rightarrow> bool" where
  "js_lt a k = (case a of Undefined \<Rightarrow> False | Null \<Rightarrow> 0 < k | Num n \<Rightarrow> n < k)"

definition js_gt :: "js_int \<Rightarrow> int \<Rightarrow> bool" where
  "js_gt a k = (case a of Undefined \<Rightarrow> False | Null \<Rightarrow> k < 0 | Num n \<Rightarrow> k < n)"

section \<open>The schema's enums and the data the resolvers touch\<close>

datatype FeedType = HOT | NEW | TOP

datatype VoteType = UP | DOWN | CANCEL

text \<open>\<^verbatim>\<open>context.user\<close>: only \<^verbatim>\<open>login\<close> is read by the resolvers.\<close>

record user =
  login :: string

text \<open>
  A comment row. The subscription filter reads \<^verbatim>\<open>repository_name\<close>; the other attributes
  are those of the data model (author, text, creation time, assigned id).
\<close>

record comment =
  comment_id :: nat
  repository_name :: string
  posted_by :: string
  content :: string
  created_at :: nat

text \<open>The published object \<^verbatim>\<open>{ commentAdded: comment }\<close>; the comment may be \<^verbatim>\<open>undefined\<close>.\<close>

record payload =
  commentAdded :: "comment option"

text \<open>The arguments of the \<^verbatim>\<open>commentAdded\<close> subscription.\<close>

record commentAdded_args =
  repoFullName :: string

definition COMMENT_ADDED_TOPIC :: string where
  "COMMENT_ADDED_TOPIC = ''commentAdded''"

section \<open>Effects: the collaborators' calls, in order\<close>

text \<open>
  Every call a resolver makes on a collaborator (the cache control object, the connectors of
  the request context, the pubsub engine), with its arguments.
\<close>

datatype call =
    CacheControl_setCacheHint nat
  | Call_Repositories_getByFullName string
  | Call_Entries_getForFeed FeedType js_int js_int
  | Call_Entries_getByRepoFullName string
  | Call_Entries_submitRepository string string
  | Call_Entries_voteForEntry string int string
  | Call_Comments_submitComment string string string
  | Call_Comments_getCommentById "nat option"
  | Pubsub_publish string payload

text \<open>
  The request context. The connectors (\<^verbatim>\<open>./github\<close>, \<^verbatim>\<open>./sql\<close>) are not part of the file:
  each is a parameter, a function on the store's state \<open>'s\<close> whose promise is fulfilled
  (\<open>Inr\<close>) or rejected (\<open>Inl\<close>). A lookup that finds nothing is fulfilled with a falsy value
  (\<open>None\<close>). \<open>'r\<close> is a repository of the directory, \<open>'e\<close> an entry.
\<close>

record ('s, 'r, 'e) resolver_context =
  user :: "user option"
  Repositories_getByFullName :: "string \<Rightarrow> 's \<Rightarrow> (js_error + 'r option) \<times> 's"
  Entries_getForFeed :: "FeedType \<Rightarrow> js_int \<Rightarrow> js_int \<Rightarrow> 's \<Rightarrow> (js_error + 'e list) \<times> 's"
  Entries_getByRepoFullName :: "string \<Rightarrow> 's \<Rightarrow> (js_error + 'e option) \<times> 's"
  Entries_submitRepository :: "string \<Rightarrow> string \<Rightarrow> 's \<Rightarrow> (js_error + unit) \<times> 's"
  Entries_voteForEntry :: "string \<Rightarrow> int \<Rightarrow> string \<Rightarrow> 's \<Rightarrow> (js_error + unit) \<times> 's"
  Comments_submitComment :: "string \<Rightarrow> string \<Rightarrow> string \<Rightarrow> 's \<Rightarrow> (js_error + nat list) \<times> 's"
  Comments_getCommentById :: "nat option \<Rightarrow> 's \<Rightarrow> (js_error + comment option) \<times> 's"

text \<open>The world a resolver runs in: the store behind the connectors and the calls made so far.\<close>

record 's world =
  store :: 's
  trace :: "call list"

section \<open>Promises\<close>

datatype 'a settled = Fulfilled 'a | Rejected js_error

type_synonym ('s, 'a) promise = "'s world \<Rightarrow> 'a settled \<times> 's world"

definition Promise_resolve :: "'a \<Rightarrow> ('s, 'a) promise" where
  "Promise_resolve v = (\<lambda>w. (Fulfilled v, w))"

text \<open>A \<^verbatim>\<open>throw\<close> inside a \<^verbatim>\<open>then\<close> callback rejects the promise the \<^verbatim>\<open>then\<close> returned.\<close>

definition throw_in_then :: "js_error \<Rightarrow> ('s, 'a) promise" where
  "throw_in_then e = (\<lambda>w. (Rejected e, w))"

text \<open>
  \<^verbatim>\<open>p.then(f)\<close> with one callback: \<open>f\<close> runs on the value once \<open>p\<close> is fulfilled; a
  rejection of \<open>p\<close> passes through and \<open>f\<close> never runs.
\<close>

definition then_promise :: "('s, 'a) promise \<Rightarrow> ('a \<Rightarrow> ('s, 'b) promise) \<Rightarrow> ('s, 'b) promise" where
  "then_promise p f = (\<lambda>w. case p w of
       (Fulfilled v, w') \<Rightarrow> f v w'
     | (Rejected e, w') \<Rightarrow> (Rejected e, w'))"

definition settled_of :: "js_error + 'a \<Rightarrow> 'a settled" where
  "settled_of r = (case r of Inl e \<Rightarrow> Rejected e | Inr v \<Rightarrow> Fulfilled v)"

text \<open>A call on a connector: it is recorded, runs on the store, and its promise settles.\<close>

definition connector_call :: "call \<Rightarrow> ('s \<Rightarrow> (js_error + 'a) \<times> 's) \<Rightarrow> ('s, 'a) promise" where
  "connector_call c operation = (\<lambda>w. case operation (store w) of
       (r, s') \<Rightarrow> (settled_of r, w\<lparr>store := s', trace := trace w @ [c]\<rparr>))"

text \<open>\<^verbatim>\<open>cacheControl.setCacheHint({ maxAge })\<close> and \<^verbatim>\<open>pubsub.publish(topic, payload)\<close>.\<close>

definition setCacheHint :: "nat \<Rightarrow> 's world \<Rightarrow> 's world" where
  "setCacheHint maxAge w = w\<lparr>trace := trace w @ [CacheControl_setCacheHint maxAge]\<rparr>"

definition pubsub_publish :: "string \<Rightarrow> payload \<Rightarrow> 's world \<Rightarrow> 's world" where
  "pubsub_publish topic p w = w\<lparr>trace := trace w @ [Pubsub_publish topic p]\<rparr>"

text \<open>A resolver either throws before it returns, or returns a value (here: a promise).\<close>

datatype 'a outcome = Thrown js_error | Returned 'a

section \<open>Query resolvers\<close>

text \<open>\<^verbatim>\<open>const protectedLimit = (limit < 1 || limit > 20) ? 20 : limit;\<close>\<close>

definition protectedLimit :: "js_int \<Rightarrow> js_int" where
  "protectedLimit limit = (if js_lt limit 1 \<or> js_gt limit 20 then Num 20 else limit)"

definition feed ::
  "('s, 'r, 'e) resolver_context \<Rightarrow> FeedType \<Rightarrow> js_int \<Rightarrow> js_int \<Rightarrow> ('s, 'e list) promise" where
  "feed ctx ftype offset limit = (\<lambda>w.
     let w1 = setCacheHint 60 w
     in connector_call (Call_Entries_getForFeed ftype offset (protectedLimit limit))
          (Entries_getForFeed ctx ftype offset (protectedLimit limit)) w1)"

definition entry ::
  "('s, 'r, 'e) resolver_context \<Rightarrow> string \<Rightarrow> ('s, 'e option) promise" where
  "entry ctx repoName = (\<lambda>w.
     let w1 = setCacheHint 60 w
     in connector_call (Call_Entries_getByRepoFullName repoName)
          (Entries_getByRepoFullName ctx repoName) w1)"

text \<open>\<^verbatim>\<open>return context.user || null;\<close> (\<open>None\<close> is \<^verbatim>\<open>null\<close>).\<close>

definition currentUser ::
  "('s, 'r, 'e) resolver_context \<Rightarrow> 's world \<Rightarrow> user option \<times> 's world" where
  "currentUser ctx w = (let w1 = setCacheHint 60 w in (user ctx, w1))"

section \<open>Mutation resolvers\<close>

definition unknown_repository_message :: "string \<Rightarrow> string" where
  "unknown_repository_message repoName =
     ''Couldn't find repository named '' @ [CHR 0x22] @ repoName @ [CHR 0x22]"

definition submitRepository ::
  "('s, 'r, 'e) resolver_context \<Rightarrow> string \<Rightarrow> 's world \<Rightarrow> 'e option settled outcome \<times> 's world" where
  "submitRepository ctx repoName w =
     (case user ctx of
        None \<Rightarrow> (Thrown (Error ''Must be logged in to submit a repository.''), w)
      | Some u \<Rightarrow>
          (case
             then_promise
               (then_promise
                  (then_promise
                     (then_promise (Promise_resolve ())
                        (\<lambda>_. then_promise
                           (connector_call (Call_Repositories_getByFullName repoName)
                              (Repositories_getByFullName ctx repoName))
                           (\<lambda>res. case res of
                                None \<Rightarrow> throw_in_then (Error (unknown_repository_message repoName))
                              | Some _ \<Rightarrow> Promise_resolve ())))
                     (\<lambda>_. then_promise
                        (connector_call (Call_Entries_getByRepoFullName repoName)
                           (Entries_getByRepoFullName ctx repoName))
                        (\<lambda>res. case res of
                             Some _ \<Rightarrow> throw_in_then (Error ''This repository has already been added.'')
                           | None \<Rightarrow> Promise_resolve ())))
                  (\<lambda>_. connector_call (Call_Entries_submitRepository repoName (login u))
                     (Entries_submitRepository ctx repoName (login u))))
               (\<lambda>_. connector_call (Call_Entries_getByRepoFullName repoName)
                  (Entries_getByRepoFullName ctx repoName))
               w
           of (r, w') \<Rightarrow> (Returned r, w')))"

text \<open>\<^verbatim>\<open>([id]) => ...\<close>: the first element of the array, \<^verbatim>\<open>undefined\<close> when it is empty.\<close>

definition first_id :: "nat list \<Rightarrow> nat option" where
  "first_id ids = (case ids of [] \<Rightarrow> None | i # _ \<Rightarrow> Some i)"

definition submitComment ::
  "('s, 'r, 'e) resolver_context \<Rightarrow> string \<Rightarrow> string \<Rightarrow> 's world
     \<Rightarrow> comment option settled outcome \<times> 's world" where
  "submitComment ctx repoName commentContent w =
     (case user ctx of
        None \<Rightarrow> (Thrown (Error ''Must be logged in to submit a comment.''), w)
      | Some u \<Rightarrow>
          (case
             then_promise
               (then_promise
                  (then_promise (Promise_resolve ())
                     (\<lambda>_. connector_call
                        (Call_Comments_submitComment repoName (login u) commentContent)
                        (Comments_submitComment ctx repoName (login u) commentContent)))
                  (\<lambda>ids. connector_call (Call_Comments_getCommentById (first_id ids))
                     (Comments_getCommentById ctx (first_id ids))))
               (\<lambda>c w2. (Fulfilled c,
                  pubsub_publish COMMENT_ADDED_TOPIC \<lparr>commentAdded = c\<rparr> w2))
               w
           of (r, w') \<Rightarrow> (Returned r, w')))"

text \<open>\<^verbatim>\<open>{ UP: 1, DOWN: -1, CANCEL: 0 }[type]\<close>\<close>

fun voteValue :: "VoteType \<Rightarrow> int" where
  "voteValue UP = 1"
| "voteValue DOWN = - 1"
| "voteValue CANCEL = 0"

definition vote ::
  "('s, 'r, 'e) resolver_context \<Rightarrow> string \<Rightarrow> VoteType \<Rightarrow> 's world
     \<Rightarrow> 'e option settled outcome \<times> 's world" where
  "vote ctx repoName vtype w =
     (case user ctx of
        None \<Rightarrow> (Thrown (Error ''Must be logged in to vote.''), w)
      | Some u \<Rightarrow>
          (case
             then_promise
               (connector_call (Call_Entries_voteForEntry repoName (voteValue vtype) (login u))
                  (Entries_voteForEntry ctx repoName (voteValue vtype) (login u)))
               (\<lambda>_. connector_call (Call_Entries_getByRepoFullName repoName)
                  (Entries_getByRepoFullName ctx repoName))
               w
           of (r, w') \<Rightarrow> (Returned r, w')))"

text \<open>The publications among a sequence of calls, oldest first.\<close>

fun publications :: "call list \<Rightarrow> (string \<times> payload) list" where
  "publications [] = []"
| "publications (Pubsub_publish topic p # cs) = (topic, p) # publications cs"
| "publications (_ # cs) = publications cs"

text \<open>
  A sequence of \<open>vote\<close> mutations on one repository in one request context (one user),
  each run in the world the one before left.
\<close>

fun vote_sequence ::
  "('s, 'r, 'e) resolver_context \<Rightarrow> string \<Rightarrow> VoteType list \<Rightarrow> 's world \<Rightarrow> 's world" where
  "vote_sequence ctx repoName [] w = w"
| "vote_sequence ctx repoName (t # ts) w =
     vote_sequence ctx repoName ts (snd (vote ctx repoName t w))"

section \<open>The commentAdded subscription\<close>

text \<open>
  The filter handed to \<^verbatim>\<open>withFilter\<close>:
  \<^verbatim>\<open>payload.commentAdded.repository_name === args.repoFullName\<close>. Reading a property of
  \<^verbatim>\<open>undefined\<close> raises a TypeError.
\<close>

definition commentAdded_filter :: "payload \<Rightarrow> commentAdded_args \<Rightarrow> js_error + bool" where
  "commentAdded_filter p args =
     (case commentAdded p of
        None \<Rightarrow> Inl (TypeError ''Cannot read property repository_name of undefined'')
      | Some c \<Rightarrow> Inr (repository_name c = repoFullName args))"

text \<open>
  Modelled from the spec: the event bus (the \<^verbatim>\<open>pubsub\<close> object of \<^verbatim>\<open>./subscriptions\<close> and the
  \<^verbatim>\<open>withFilter\<close> wrapper are not in the file). A subscriber is registered on a topic with a
  filter predicate and owns the sequence of events delivered to it; there is no backlog.
  \<open>publish\<close> delivers an event to every registered subscriber on the topic whose predicate
  evaluates to true, in publication order; \<open>cancel\<close> deregisters and is idempotent. A handle
  is the position of the registration, so a cancelled slot is kept empty.
\<close>

record subscriber =
  sub_topic :: string
  filterPredicate :: "payload \<Rightarrow> js_error + bool"
  delivered :: "payload list"

type_synonym event_bus = "subscriber option list"

definition subscribe ::
  "event_bus \<Rightarrow> string \<Rightarrow> (payload \<Rightarrow> js_error + bool) \<Rightarrow> nat \<times> event_bus" where
  "subscribe bus topic predicate =
     (length bus, bus @ [Some \<lparr>sub_topic = topic, filterPredicate = predicate, delivered = []\<rparr>])"

definition deliver :: "string \<Rightarrow> payload \<Rightarrow> subscriber \<Rightarrow> subscriber" where
  "deliver topic ev s =
     (if sub_topic s = topic \<and> filterPredicate s ev = Inr True
      then s\<lparr>delivered := delivered s @ [ev]\<rparr> else s)"

definition publish :: "event_bus \<Rightarrow> string \<Rightarrow> payload \<Rightarrow> event_bus" where
  "publish bus topic ev = map (map_option (deliver topic ev)) bus"

definition cancel :: "event_bus \<Rightarrow> nat \<Rightarrow> event_bus" where
  "cancel bus h = (if h < length bus then bus[h := None] else bus)"

definition events_of :: "event_bus \<Rightarrow> nat \<Rightarrow> payload list" where
  "events_of bus h =
     (if h < length bus then (case bus ! h of None \<Rightarrow> [] | Some s \<Rightarrow> delivered s) else [])"

text \<open>
  \<^verbatim>\<open>subscribe: withFilter(() => pubsub.asyncIterator(COMMENT_ADDED_TOPIC), filter)\<close>: a
  subscription on the fixed topic whose predicate is the filter at the subscription's
  arguments.
\<close>

definition commentAdded_subscribe :: "commentAdded_args \<Rightarrow> event_bus \<Rightarrow> nat \<times> event_bus" where
  "commentAdded_subscribe args bus =
     subscribe bus COMMENT_ADDED_TOPIC (\<lambda>p. commentAdded_filter p args)"

text \<open>
  Modelled from the spec: a history of the bus. After a subscription is registered the bus
  goes through any sequence of further registrations, publications and cancellations;
  \<open>run_ops\<close> applies them in order, and \<open>cancels ops h\<close> says that the handle \<open>h\<close> is
  cancelled somewhere in the sequence.
\<close>

datatype bus_op =
    Op_subscribe string "payload \<Rightarrow> js_error + bool"
  | Op_publish string payload
  | Op_cancel nat

definition apply_op :: "bus_op \<Rightarrow> event_bus \<Rightarrow> event_bus" where
  "apply_op a bus =
     (case a of
        Op_subscribe topic predicate \<Rightarrow> snd (subscribe bus topic predicate)
      | Op_publish topic ev \<Rightarrow> publish bus topic ev
      | Op_cancel h \<Rightarrow> cancel bus h)"

primrec run_ops :: "bus_op list \<Rightarrow> event_bus \<Rightarrow> event_bus" where
  "run_ops [] bus = bus"
| "run_ops (a # ops) bus = run_ops ops (apply_op a bus)"

primrec cancels :: "bus_op list \<Rightarrow> nat \<Rightarrow> bool" where
  "cancels [] h = False"
| "cancels (a # ops) h = ((case a of Op_cancel k \<Rightarrow> k = h | _ \<Rightarrow> False) \<or> cancels ops h)"

section \<open>Enrichment: geocoding and weather\<close>

definition baseUrl :: string where
  "baseUrl = ''https://api.darksky.net/forecast/''"

definition urlParams :: string where
  "urlParams = ''?units=us&exclude=minutely,hourly,daily,flags''"

definition mapLinkBase :: string where
  "mapLinkBase = ''https://www.google.com/maps/?q=''"

text \<open>
  The promise built by \<^verbatim>\<open>new Promise((resolve, reject) => ...)\<close> as the library's callback
  leaves it: pending (\<open>None\<close>) or settled, and the exception, if any, that the callback
  threw back into the library that called it. Only the first of \<^verbatim>\<open>resolve\<close> and
  \<^verbatim>\<open>reject\<close> settles a promise.
\<close>

record 'a callback_result =
  promise_state :: "'a settled option"
  uncaught :: "js_error option"

definition settle :: "'a settled \<Rightarrow> 'a settled option \<Rightarrow> 'a settled option" where
  "settle v p = (case p of None \<Rightarrow> Some v | Some old \<Rightarrow> Some old)"

text \<open>One result of the geocoder; \<open>'n\<close> is the type of its numbers.\<close>

record 'n geocoder_entry =
  city :: string
  country :: string
  latitude :: 'n
  longitude :: 'n

record 'n location =
  location_city :: string
  location_country :: string
  location_coords :: "'n list"
  location_mapLink :: string

text \<open>
  The callback of \<^verbatim>\<open>geocoder.geocode(place, (err, res) => ...)\<close>. There is no \<^verbatim>\<open>return\<close>
  after \<^verbatim>\<open>reject(err)\<close>: the callback goes on to read \<^verbatim>\<open>res[0]\<close>, which raises when
  \<^verbatim>\<open>res\<close> is \<^verbatim>\<open>undefined\<close> (\<open>None\<close>) and, in the destructuring, when the array is empty.
  \<open>show_num\<close> is the conversion of a number in the template string.
\<close>

definition getLocation_callback ::
  "('n \<Rightarrow> string) \<Rightarrow> js_error option \<Rightarrow> 'n geocoder_entry list option
     \<Rightarrow> 'n location callback_result" where
  "getLocation_callback show_num err res =
     (let p = (case err of Some e \<Rightarrow> settle (Rejected e) None | None \<Rightarrow> None)
      in case res of
           None \<Rightarrow>
             \<lparr>promise_state = p,
              uncaught = Some (TypeError ''Cannot read property 0 of undefined'')\<rparr>
         | Some [] \<Rightarrow>
             \<lparr>promise_state = p,
              uncaught = Some (TypeError ''Cannot destructure property city of undefined'')\<rparr>
         | Some (r # _) \<Rightarrow>
             \<lparr>promise_state =
                settle (Fulfilled
                  \<lparr>location_city = city r, location_country = country r,
                   location_coords = [latitude r, longitude r],
                   location_mapLink =
                     mapLinkBase @ show_num (latitude r) @ '','' @ show_num (longitude r)\<rparr>) p,
              uncaught = None\<rparr>)"

text \<open>\<open>geocode\<close> is the geocoder's answer to a place: the arguments it calls back with.\<close>

definition getLocation ::
  "('n \<Rightarrow> string) \<Rightarrow> (string \<Rightarrow> js_error option \<times> 'n geocoder_entry list option)
     \<Rightarrow> string \<Rightarrow> 'n location callback_result" where
  "getLocation show_num geocode place =
     (case geocode place of (err, res) \<Rightarrow> getLocation_callback show_num err res)"

record 'n conditions =
  summary :: string
  temperature :: 'n

record 'n forecast =
  currently :: "'n conditions option"

record 'n weather =
  weather_summary :: string
  weather_temperature :: 'n
  weather_coords :: "'n list"

text \<open>
  \<^verbatim>\<open>JSON.parse(body)\<close>: the parser of a text is a parameter; \<^verbatim>\<open>JSON.parse(undefined)\<close>
  converts its argument to the text \<^verbatim>\<open>undefined\<close>, which is not JSON, and raises.
\<close>

definition JSON_parse :: "(string \<Rightarrow> js_error + 'd) \<Rightarrow> string option \<Rightarrow> js_error + 'd" where
  "JSON_parse parse body =
     (case body of
        None \<Rightarrow> Inl (SyntaxError ''Unexpected token u in JSON at position 0'')
      | Some s \<Rightarrow> parse s)"

text \<open>
  The callback of \<^verbatim>\<open>request(url, (error, response, body) => ...)\<close>; again nothing returns
  after \<^verbatim>\<open>reject(error)\<close>.
\<close>

definition getWeather_callback ::
  "(string \<Rightarrow> js_error + 'n forecast) \<Rightarrow> 'n list \<Rightarrow> js_error option \<Rightarrow> string option
     \<Rightarrow> 'n weather callback_result" where
  "getWeather_callback parse coords err body =
     (let p = (case err of Some e \<Rightarrow> settle (Rejected e) None | None \<Rightarrow> None)
      in case JSON_parse parse body of
           Inl e \<Rightarrow> \<lparr>promise_state = p, uncaught = Some e\<rparr>
         | Inr d \<Rightarrow>
             (case currently d of
                None \<Rightarrow>
                  \<lparr>promise_state = p,
                   uncaught = Some (TypeError ''Cannot destructure property summary of undefined'')\<rparr>
              | Some c \<Rightarrow>
                  \<lparr>promise_state =
                     settle (Fulfilled
                       \<lparr>weather_summary = summary c, weather_temperature = temperature c,
                        weather_coords = coords\<rparr>) p,
                   uncaught = None\<rparr>))"

text \<open>An element of \<^verbatim>\<open>coords\<close> in the template string; out of range it is \<^verbatim>\<open>undefined\<close>.\<close>

definition coord_text :: "('n \<Rightarrow> string) \<Rightarrow> 'n list \<Rightarrow> nat \<Rightarrow> string" where
  "coord_text show_num coords i =
     (if i < length coords then show_num (coords ! i) else ''undefined'')"

definition weather_url :: "('n \<Rightarrow> string) \<Rightarrow> string \<Rightarrow> 'n list \<Rightarrow> string" where
  "weather_url show_num darkSkySecret coords =
     baseUrl @ darkSkySecret @ ''/'' @ coord_text show_num coords 0 @ '',''
       @ coord_text show_num coords 1 @ urlParams"

text \<open>\<open>request\<close> is the HTTP client's answer to a URL: the error and body it calls back with.\<close>

definition getWeather ::
  "('n \<Rightarrow> string) \<Rightarrow> string \<Rightarrow> (string \<Rightarrow> js_error + 'n forecast)
     \<Rightarrow> (string \<Rightarrow> js_error option \<times> string option) \<Rightarrow> 'n list \<Rightarrow> 'n weather callback_result" where
  "getWeather show_num darkSkySecret parse request coords =
     (case request (weather_url show_num darkSkySecret coords) of
        (err, body) \<Rightarrow> getWeather_callback parse coords err body)"

section \<open>The vote ledger and a store in memory\<close>

record stored_entry =
  entry_repo :: string
  entry_submitter :: string
  entry_created :: nat

record entry_view = stored_entry +
  score :: int
  commentsCount :: nat

record db =
  db_directory :: "string list"
  db_entries :: "stored_entry list"
  db_votes :: "((string \<times> string) \<times> int) list"
  db_comments :: "comment list"
  db_clock :: nat

datatype ledger_error = NotAuthenticated | UnknownEntry

text \<open>
  Modelled from the spec: the vote ledger (\<^verbatim>\<open>Entries.voteForEntry\<close> lives in \<^verbatim>\<open>./sql\<close>, which
  is not in the file). \<open>castVote\<close> upserts the record of the (entry, voter) pair: the
  voter's earlier record for the entry, if any, is replaced by the new value. It fails with
  \<open>NotAuthenticated\<close> when the voter identity is absent and with \<open>UnknownEntry\<close> when the entry
  key does not resolve. \<open>currentScore\<close> is the sum over all vote records of the entry.
\<close>

definition castVote :: "string \<Rightarrow> string option \<Rightarrow> int \<Rightarrow> db \<Rightarrow> ledger_error + db" where
  "castVote entryKey voterIdentity v d =
     (case voterIdentity of
        None \<Rightarrow> Inl NotAuthenticated
      | Some voter \<Rightarrow>
          if entryKey \<in> set (map entry_repo (db_entries d))
          then Inr (d\<lparr>db_votes :=
                 ((entryKey, voter), v) # filter (\<lambda>r. fst r \<noteq> (entryKey, voter)) (db_votes d)\<rparr>)
          else Inl UnknownEntry)"

definition currentScore :: "db \<Rightarrow> string \<Rightarrow> int" where
  "currentScore d entryKey =
     sum_list (map snd (filter (\<lambda>r. fst (fst r) = entryKey) (db_votes d)))"

text \<open>The part of an entry's score that comes from voters other than the given one.\<close>

definition score_of_others :: "db \<Rightarrow> string \<Rightarrow> string \<Rightarrow> int" where
  "score_of_others d entryKey voter =
     sum_list (map snd (filter (\<lambda>r. fst (fst r) = entryKey \<and> snd (fst r) \<noteq> voter) (db_votes d)))"

text \<open>A sequence of vote tokens cast by one voter on one entry, stopping at the first failure.\<close>

fun castVotes :: "string \<Rightarrow> string option \<Rightarrow> VoteType list \<Rightarrow> db \<Rightarrow> ledger_error + db" where
  "castVotes entryKey voterIdentity [] d = Inr d"
| "castVotes entryKey voterIdentity (t # ts) d =
     (case castVote entryKey voterIdentity (voteValue t) d of
        Inl e \<Rightarrow> Inl e
      | Inr d' \<Rightarrow> castVotes entryKey voterIdentity ts d')"

text \<open>
  Modelled from the spec: the persistent store and the repository directory behind the
  connectors (\<^verbatim>\<open>./sql\<close> and \<^verbatim>\<open>./github\<close> are not in the file): lookup of an entry by
  repository name with its derived score and comment count, creation of an entry, the
  recording of a vote through the ledger, creation of a comment with an assigned id, lookup
  of a comment by id, and the directory's existence check. The feed's ranking is left out:
  no mutation calls it, and the connector answers with an empty page.
\<close>

definition view_of :: "db \<Rightarrow> stored_entry \<Rightarrow> entry_view" where
  "view_of d e =
     \<lparr>entry_repo = entry_repo e, entry_submitter = entry_submitter e,
      entry_created = entry_created e,
      score = currentScore d (entry_repo e),
      commentsCount = length (filter (\<lambda>c. repository_name c = entry_repo e) (db_comments d))\<rparr>"

definition store_getByFullName :: "string \<Rightarrow> db \<Rightarrow> (js_error + string option) \<times> db" where
  "store_getByFullName n d = (Inr (if n \<in> set (db_directory d) then Some n else None), d)"

definition store_getByRepoFullName :: "string \<Rightarrow> db \<Rightarrow> (js_error + entry_view option) \<times> db" where
  "store_getByRepoFullName n d =
     (Inr (map_option (view_of d) (find (\<lambda>e. entry_repo e = n) (db_entries d))), d)"

definition store_submitRepository :: "string \<Rightarrow> string \<Rightarrow> db \<Rightarrow> (js_error + unit) \<times> db" where
  "store_submitRepository n submitter d =
     (Inr (),
      d\<lparr>db_entries := db_entries d
           @ [\<lparr>entry_repo = n, entry_submitter = submitter, entry_created = db_clock d\<rparr>],
        db_clock := Suc (db_clock d)\<rparr>)"

definition store_voteForEntry :: "string \<Rightarrow> int \<Rightarrow> string \<Rightarrow> db \<Rightarrow> (js_error + unit) \<times> db" where
  "store_voteForEntry n v voter d =
     (case castVote n (Some voter) v d of
        Inl NotAuthenticated \<Rightarrow> (Inl (Error ''NotAuthenticated''), d)
      | Inl UnknownEntry \<Rightarrow> (Inl (Error ''UnknownEntry''), d)
      | Inr d' \<Rightarrow> (Inr (), d'))"

definition store_submitComment ::
  "string \<Rightarrow> string \<Rightarrow> string \<Rightarrow> db \<Rightarrow> (js_error + nat list) \<times> db" where
  "store_submitComment n author body d =
     (if n \<in> set (map entry_repo (db_entries d))
      then (Inr [Suc (length (db_comments d))],
            d\<lparr>db_comments := db_comments d
                 @ [\<lparr>comment_id = Suc (length (db_comments d)), repository_name = n,
                     posted_by = author, content = body, created_at = db_clock d\<rparr>],
              db_clock := Suc (db_clock d)\<rparr>)
      else (Inl (Error ''UnknownEntry''), d))"

definition store_getCommentById :: "nat option \<Rightarrow> db \<Rightarrow> (js_error + comment option) \<times> db" where
  "store_getCommentById i d =
     (Inr (case i of None \<Rightarrow> None | Some k \<Rightarrow> find (\<lambda>c. comment_id c = k) (db_comments d)), d)"

definition store_context :: "user option \<Rightarrow> (db, string, entry_view) resolver_context" where
  "store_context u =
     \<lparr>user = u,
      Repositories_getByFullName = store_getByFullName,
      Entries_getForFeed = (\<lambda>ftype offset limit d. (Inr [], d)),
      Entries_getByRepoFullName = store_getByRepoFullName,
      Entries_submitRepository = store_submitRepository,
      Entries_voteForEntry = store_voteForEntry,
      Comments_submitComment = store_submitComment,
      Comments_getCommentById = store_getCommentById\<rparr>"

text \<open>A small store: one known repository with an entry, one known repository without.\<close>

definition demo_db :: db where
  "demo_db =
     \<lparr>db_directory = [''A/A'', ''B/B''],
      db_entries = [\<lparr>entry_repo = ''A/A'', entry_submitter = ''alice'', entry_created = 0\<rparr>],
      db_votes = [((''A/A'', ''bob''), 1)],
      db_comments = [],
      db_clock = 1\<rparr>"

definition demo_world :: "db world" where
  "demo_world = \<lparr>store = demo_db, trace = []\<rparr>"

text \<open>
  The same store behind a connector that is out of reach: the directory lookup, the entry
  lookup, the creation of an entry or the lookup of a comment is rejected.
\<close>

definition directory_down_context :: "user option \<Rightarrow> (db, string, entry_view) resolver_context" where
  "directory_down_context u =
     (store_context u)\<lparr>Repositories_getByFullName :=
        (\<lambda>n d. (Inl (Error ''directory unreachable''), d))\<rparr>"

definition lookup_down_context :: "user option \<Rightarrow> (db, string, entry_view) resolver_context" where
  "lookup_down_context u =
     (store_context u)\<lparr>Entries_getByRepoFullName :=
        (\<lambda>n d. (Inl (Error ''store unreachable''), d))\<rparr>"

definition write_down_context :: "user option \<Rightarrow> (db, string, entry_view) resolver_context" where
  "write_down_context u =
     (store_context u)\<lparr>Entries_submitRepository :=
        (\<lambda>n submitter d. (Inl (Error ''write refused''), d))\<rparr>"

definition fetch_down_context :: "user option \<Rightarrow> (db, string, entry_view) resolver_context" where
  "fetch_down_context u =
     (store_context u)\<lparr>Comments_getCommentById :=
        (\<lambda>i d. (Inl (Error ''store unreachable''), d))\<rparr>"

text \<open>A comment on a repository, for the examples of the subscription.\<close>

definition comment_on :: "string \<Rightarrow> nat \<Rightarrow> comment" where
  "comment_on repoName i =
     \<lparr>comment_id = i, repository_name = repoName, posted_by = ''carol'',
      content = ''nice'', created_at = i\<rparr>"

section \<open>Facts about promises and connector calls\<close>

lemmas promise_defs = then_promise_def connector_call_def Promise_resolve_def
  throw_in_then_def settled_of_def

lemmas store_defs = store_context_def demo_world_def demo_db_def store_getByFullName_def
  store_getByRepoFullName_def store_submitRepository_def store_voteForEntry_def
  store_submitComment_def store_getCommentById_def castVote_def view_of_def currentScore_def

lemmas down_defs = directory_down_context_def lookup_down_context_def write_down_context_def
  fetch_down_context_def

lemma connector_call_trace:
  "trace (snd (connector_call c operation w)) = trace w @ [c]"
  by (simp add: connector_call_def split: prod.split)

lemma connector_call_result:
  "fst (connector_call c operation w) = settled_of (fst (operation (store w)))"
  by (simp add: connector_call_def split: prod.split)

lemma publications_append: "publications (xs @ ys) = publications xs @ publications ys"
  by (induction xs rule: publications.induct) simp_all

section \<open>Query resolvers: the limit and the cache hint\<close>

text \<open>
  C1: the limit handed to the entry store is clamped to the range from 1 to 20. For an
  integer limit the code does so (a value of at most 0 or above 20 becomes 20, a value from
  1 to 20 is passed through) and \<^verbatim>\<open>null\<close> becomes 20; but for a query that leaves the limit
  out the value handed on is \<^verbatim>\<open>undefined\<close>, which is no number from 1 to 20. The last call
  of such a query is the store's, with that limit.
\<close>

theorem feed_limit_clamp:
  "protectedLimit (Num n) = (if n \<le> 0 \<or> 20 < n then Num 20 else Num n)
   \<and> protectedLimit Null = Num 20
   \<and> protectedLimit Undefined \<notin> Num ` {1..20}
   \<and> last (trace (snd (feed ctx TOP Undefined Undefined w)))
       = Call_Entries_getForFeed TOP Undefined Undefined"
  by (auto simp add: protectedLimit_def js_lt_def js_gt_def feed_def connector_call_trace)

text \<open>
  C9: each of the three queries (\<open>feed\<close>, \<open>entry\<close>, \<open>currentUser\<close>) sets a cache hint with a
  maximum age of 60 on every invocation, as its first effect, and keeps no results of its
  own: \<open>feed\<close> and \<open>entry\<close> call the entry store on every invocation and return what it
  answers in the current state of the store, and \<open>currentUser\<close> returns the user of the
  request context.
\<close>

theorem query_cache_hints:
  "trace (snd (feed ctx ftype offset limit w))
     = trace w @ [CacheControl_setCacheHint 60,
                  Call_Entries_getForFeed ftype offset (protectedLimit limit)]
   \<and> fst (feed ctx ftype offset limit w)
     = settled_of (fst (Entries_getForFeed ctx ftype offset (protectedLimit limit) (store w)))
   \<and> trace (snd (entry ctx repoName w))
     = trace w @ [CacheControl_setCacheHint 60, Call_Entries_getByRepoFullName repoName]
   \<and> fst (entry ctx repoName w)
     = settled_of (fst (Entries_getByRepoFullName ctx repoName (store w)))
   \<and> currentUser ctx w = (user ctx, w\<lparr>trace := trace w @ [CacheControl_setCacheHint 60]\<rparr>)"
  by (simp add: feed_def entry_def currentUser_def setCacheHint_def
      connector_call_trace connector_call_result)

text \<open>
  C10: when the feed query leaves the limit out, neither \<^verbatim>\<open>limit < 1\<close> nor \<^verbatim>\<open>limit > 20\<close>
  holds of \<^verbatim>\<open>undefined\<close>, so \<^verbatim>\<open>undefined\<close> itself, not 20, is the limit the entry store is
  called with.
\<close>

theorem feed_limit_omitted:
  "\<not> js_lt Undefined 1 \<and> \<not> js_gt Undefined 20
   \<and> protectedLimit Undefined = Undefined
   \<and> protectedLimit Undefined \<noteq> Num 20
   \<and> feed ctx ftype offset Undefined w
     = (settled_of (fst (Entries_getForFeed ctx ftype offset Undefined (store w))),
        w\<lparr>store := snd (Entries_getForFeed ctx ftype offset Undefined (store w)),
          trace := trace w @ [CacheControl_setCacheHint 60,
                              Call_Entries_getForFeed ftype offset Undefined]\<rparr>)"
  by (simp add: feed_def setCacheHint_def connector_call_def protectedLimit_def
      js_lt_def js_gt_def split: prod.split)

section \<open>Mutations without a user\<close>

text \<open>
  C2: in a request context with no user, each of the three mutations throws its
  \<^verbatim>\<open>Must be logged in\<close> error at once and leaves the world as it was: no connector is
  called, nothing is published, the store is untouched.
\<close>

theorem unauthenticated_mutations_fail:
  assumes "user ctx = None"
  shows "submitRepository ctx repoName w
           = (Thrown (Error ''Must be logged in to submit a repository.''), w)
       \<and> vote ctx repoName vtype w = (Thrown (Error ''Must be logged in to vote.''), w)
       \<and> submitComment ctx repoName commentContent w
           = (Thrown (Error ''Must be logged in to submit a comment.''), w)"
  using assms by (simp add: submitRepository_def vote_def submitComment_def)

theorem unauthenticated_mutations_fail_witness:
  "user (store_context None) = None
   \<and> submitRepository (store_context None) ''B/B'' demo_world
       = (Thrown (Error ''Must be logged in to submit a repository.''), demo_world)
   \<and> vote (store_context None) ''A/A'' UP demo_world
       = (Thrown (Error ''Must be logged in to vote.''), demo_world)
   \<and> submitComment (store_context None) ''A/A'' ''nice'' demo_world
       = (Thrown (Error ''Must be logged in to submit a comment.''), demo_world)"
  using unauthenticated_mutations_fail [of "store_context None" "''B/B''" demo_world]
    unauthenticated_mutations_fail [of "store_context None" "''A/A''" demo_world UP "''nice''"]
  by (simp add: store_context_def)

section \<open>submitRepository: the order of its steps\<close>

lemma submitRepository_directory_rejected:
  assumes "user ctx = Some u"
    and "Repositories_getByFullName ctx repoName (store w) = (Inl err, s1)"
  shows "submitRepository ctx repoName w
           = (Returned (Rejected err),
              w\<lparr>store := s1, trace := trace w @ [Call_Repositories_getByFullName repoName]\<rparr>)"
  using assms by (simp add: submitRepository_def promise_defs)

lemma submitRepository_lookup_rejected:
  assumes "user ctx = Some u"
    and "Repositories_getByFullName ctx repoName (store w) = (Inr (Some r), s1)"
    and "Entries_getByRepoFullName ctx repoName s1 = (Inl err, s2)"
  shows "submitRepository ctx repoName w
           = (Returned (Rejected err),
              w\<lparr>store := s2, trace := trace w @ [Call_Repositories_getByFullName repoName,
                 Call_Entries_getByRepoFullName repoName]\<rparr>)"
  using assms by (simp add: submitRepository_def promise_defs)

lemma submitRepository_creation_rejected:
  assumes "user ctx = Some u"
    and "Repositories_getByFullName ctx repoName (store w) = (Inr (Some r), s1)"
    and "Entries_getByRepoFullName ctx repoName s1 = (Inr None, s2)"
    and "Entries_submitRepository ctx repoName (login u) s2 = (Inl err, s3)"
  shows "submitRepository ctx repoName w
           = (Returned (Rejected err),
              w\<lparr>store := s3, trace := trace w @
                [Call_Repositories_getByFullName repoName,
                 Call_Entries_getByRepoFullName repoName,
                 Call_Entries_submitRepository repoName (login u)]\<rparr>)"
  using assms by (simp add: submitRepository_def promise_defs)

lemma submitRepository_unknown:
  assumes "user ctx = Some u"
    and "Repositories_getByFullName ctx repoName (store w) = (Inr None, s)"
  shows "submitRepository ctx repoName w
           = (Returned (Rejected (Error (unknown_repository_message repoName))),
              w\<lparr>store := s, trace := trace w @ [Call_Repositories_getByFullName repoName]\<rparr>)"
  using assms by (simp add: submitRepository_def promise_defs)

lemma submitRepository_duplicate:
  assumes "user ctx = Some u"
    and "Repositories_getByFullName ctx repoName (store w) = (Inr (Some r), s1)"
    and "Entries_getByRepoFullName ctx repoName s1 = (Inr (Some e), s2)"
  shows "submitRepository ctx repoName w
           = (Returned (Rejected (Error ''This repository has already been added.'')),
              w\<lparr>store := s2, trace := trace w @ [Call_Repositories_getByFullName repoName,
                 Call_Entries_getByRepoFullName repoName]\<rparr>)"
  using assms by (simp add: submitRepository_def promise_defs)

lemma submitRepository_created:
  assumes "user ctx = Some u"
    and "Repositories_getByFullName ctx repoName (store w) = (Inr (Some r), s1)"
    and "Entries_getByRepoFullName ctx repoName s1 = (Inr None, s2)"
    and "Entries_submitRepository ctx repoName (login u) s2 = (Inr x, s3)"
    and "Entries_getByRepoFullName ctx repoName s3 = (res, s4)"
  shows "submitRepository ctx repoName w
           = (Returned (settled_of res),
              w\<lparr>store := s4, trace := trace w @
                [Call_Repositories_getByFullName repoName,
                 Call_Entries_getByRepoFullName repoName,
                 Call_Entries_submitRepository repoName (login u),
                 Call_Entries_getByRepoFullName repoName]\<rparr>)"
  using assms by (simp add: submitRepository_def promise_defs)

lemma submitRepository_prefix:
  assumes "user ctx = Some u"
  shows "\<exists>ks. trace (snd (submitRepository ctx repoName w)) = trace w @ ks
            \<and> prefix ks [Call_Repositories_getByFullName repoName,
                 Call_Entries_getByRepoFullName repoName,
                 Call_Entries_submitRepository repoName (login u),
                 Call_Entries_getByRepoFullName repoName]"
  using assms
  by (auto simp add: submitRepository_def promise_defs
      split: prod.splits option.splits sum.splits settled.splits)

text \<open>
  C3: for a caller with a user, \<open>submitRepository\<close> first asks the repository directory, then
  looks for an entry, then creates the entry, then reads it again, and stops at the first
  step that fails. When the directory call is rejected the mutation is rejected with the
  same error after that single call, and when the directory cannot confirm the repository
  it is rejected with the unknown-repository error, again after that single call. When the
  entry lookup is rejected the mutation is rejected with the same error after the two
  lookups. When the repository already has an entry the mutation is rejected with
  \<^verbatim>\<open>This repository has already been added.\<close> after the two lookups: the entry store's
  \<open>submitRepository\<close> is never called, and neither is any vote or comment operation. When
  the creation is rejected the mutation is rejected with the same error and nothing is
  read again. When both checks pass and the entry is created, the value returned is the
  one read after the creation. In every run the calls made are a prefix of the four steps
  in that order.
\<close>

theorem submitRepository_order:
  assumes "user ctx = Some u"
  shows "(Repositories_getByFullName ctx repoName (store w) = (Inl err, s1)
            \<longrightarrow> submitRepository ctx repoName w
                  = (Returned (Rejected err),
                     w\<lparr>store := s1,
                       trace := trace w @ [Call_Repositories_getByFullName repoName]\<rparr>))
       \<and> (Repositories_getByFullName ctx repoName (store w) = (Inr None, s1)
            \<longrightarrow> submitRepository ctx repoName w
                  = (Returned (Rejected (Error (unknown_repository_message repoName))),
                     w\<lparr>store := s1,
                       trace := trace w @ [Call_Repositories_getByFullName repoName]\<rparr>))
       \<and> (Repositories_getByFullName ctx repoName (store w) = (Inr (Some r), s1)
            \<and> Entries_getByRepoFullName ctx repoName s1 = (Inl err, s2)
            \<longrightarrow> submitRepository ctx repoName w
                  = (Returned (Rejected err),
                     w\<lparr>store := s2,
                       trace := trace w @ [Call_Repositories_getByFullName repoName,
                                           Call_Entries_getByRepoFullName repoName]\<rparr>))
       \<and> (Repositories_getByFullName ctx repoName (store w) = (Inr (Some r), s1)
            \<and> Entries_getByRepoFullName ctx repoName s1 = (Inr (Some e), s2)
            \<longrightarrow> submitRepository ctx repoName w
                  = (Returned (Rejected (Error ''This repository has already been added.'')),
                     w\<lparr>store := s2,
                       trace := trace w @ [Call_Repositories_getByFullName repoName,
                                           Call_Entries_getByRepoFullName repoName]\<rparr>))
       \<and> (Repositories_getByFullName ctx repoName (store w) = (Inr (Some r), s1)
            \<and> Entries_getByRepoFullName ctx repoName s1 = (Inr None, s2)
            \<and> Entries_submitRepository ctx repoName (login u) s2 = (Inl err, s3)
            \<longrightarrow> submitRepository ctx repoName w
                  = (Returned (Rejected err),
                     w\<lparr>store := s3,
                       trace := trace w @ [Call_Repositories_getByFullName repoName,
                                           Call_Entries_getByRepoFullName repoName,
                                           Call_Entries_submitRepository repoName (login u)]\<rparr>))
       \<and> (Repositories_getByFullName ctx repoName (store w) = (Inr (Some r), s1)
            \<and> Entries_getByRepoFullName ctx repoName s1 = (Inr None, s2)
            \<and> Entries_submitRepository ctx repoName (login u) s2 = (Inr x, s3)
            \<and> Entries_getByRepoFullName ctx repoName s3 = (res, s4)
            \<longrightarrow> submitRepository ctx repoName w
                  = (Returned (settled_of res),
                     w\<lparr>store := s4,
                       trace := trace w @ [Call_Repositories_getByFullName repoName,
                                           Call_Entries_getByRepoFullName repoName,
                                           Call_Entries_submitRepository repoName (login u),
                                           Call_Entries_getByRepoFullName repoName]\<rparr>))
       \<and> (\<exists>ks. trace (snd (submitRepository ctx repoName w)) = trace w @ ks
              \<and> prefix ks [Call_Repositories_getByFullName repoName,
                           Call_Entries_getByRepoFullName repoName,
                           Call_Entries_submitRepository repoName (login u),
                           Call_Entries_getByRepoFullName repoName])"
proof (intro conjI impI)
  assume "Repositories_getByFullName ctx repoName (store w) = (Inl err, s1)"
  then show "submitRepository ctx repoName w
      = (Returned (Rejected err),
         w\<lparr>store := s1, trace := trace w @ [Call_Repositories_getByFullName repoName]\<rparr>)"
    by (rule submitRepository_directory_rejected [OF assms])
next
  assume "Repositories_getByFullName ctx repoName (store w) = (Inr None, s1)"
  then show "submitRepository ctx repoName w
      = (Returned (Rejected (Error (unknown_repository_message repoName))),
         w\<lparr>store := s1, trace := trace w @ [Call_Repositories_getByFullName repoName]\<rparr>)"
    by (rule submitRepository_unknown [OF assms])
next
  assume "Repositories_getByFullName ctx repoName (store w) = (Inr (Some r), s1)
            \<and> Entries_getByRepoFullName ctx repoName s1 = (Inl err, s2)"
  then show "submitRepository ctx repoName w
      = (Returned (Rejected err),
         w\<lparr>store := s2,
           trace := trace w @ [Call_Repositories_getByFullName repoName,
                               Call_Entries_getByRepoFullName repoName]\<rparr>)"
    using submitRepository_lookup_rejected [OF assms] by blast
next
  assume "Repositories_getByFullName ctx repoName (store w) = (Inr (Some r), s1)
            \<and> Entries_getByRepoFullName ctx repoName s1 = (Inr (Some e), s2)"
  then show "submitRepository ctx repoName w
      = (Returned (Rejected (Error ''This repository has already been added.'')),
         w\<lparr>store := s2,
           trace := trace w @ [Call_Repositories_getByFullName repoName,
                               Call_Entries_getByRepoFullName repoName]\<rparr>)"
    using submitRepository_duplicate [OF assms] by blast
next
  assume "Repositories_getByFullName ctx repoName (store w) = (Inr (Some r), s1)
            \<and> Entries_getByRepoFullName ctx repoName s1 = (Inr None, s2)
            \<and> Entries_submitRepository ctx repoName (login u) s2 = (Inl err, s3)"
  then show "submitRepository ctx repoName w
      = (Returned (Rejected err),
         w\<lparr>store := s3,
           trace := trace w @ [Call_Repositories_getByFullName repoName,
                               Call_Entries_getByRepoFullName repoName,
                               Call_Entries_submitRepository repoName (login u)]\<rparr>)"
    using submitRepository_creation_rejected [OF assms] by blast
next
  assume "Repositories_getByFullName ctx repoName (store w) = (Inr (Some r), s1)
            \<and> Entries_getByRepoFullName ctx repoName s1 = (Inr None, s2)
            \<and> Entries_submitRepository ctx repoName (login u) s2 = (Inr x, s3)
            \<and> Entries_getByRepoFullName ctx repoName s3 = (res, s4)"
  then show "submitRepository ctx repoName w
      = (Returned (settled_of res),
         w\<lparr>store := s4,
           trace := trace w @ [Call_Repositories_getByFullName repoName,
                               Call_Entries_getByRepoFullName repoName,
                               Call_Entries_submitRepository repoName (login u),
                               Call_Entries_getByRepoFullName repoName]\<rparr>)"
    using submitRepository_created [OF assms] by blast
next
  show "\<exists>ks. trace (snd (submitRepository ctx repoName w)) = trace w @ ks
              \<and> prefix ks [Call_Repositories_getByFullName repoName,
                           Call_Entries_getByRepoFullName repoName,
                           Call_Entries_submitRepository repoName (login u),
                           Call_Entries_getByRepoFullName repoName]"
    by (rule submitRepository_prefix [OF assms])
qed

theorem submitRepository_order_witness:
  "user (store_context (Some \<lparr>login = ''carol''\<rparr>)) = Some \<lparr>login = ''carol''\<rparr>
   \<and> submitRepository (directory_down_context (Some \<lparr>login = ''carol''\<rparr>)) ''B/B'' demo_world
     = (Returned (Rejected (Error ''directory unreachable'')),
        \<lparr>store = demo_db, trace = [Call_Repositories_getByFullName ''B/B'']\<rparr>)
   \<and> submitRepository (store_context (Some \<lparr>login = ''carol''\<rparr>)) ''C/C'' demo_world
     = (Returned (Rejected (Error (unknown_repository_message ''C/C''))),
        \<lparr>store = demo_db, trace = [Call_Repositories_getByFullName ''C/C'']\<rparr>)
   \<and> submitRepository (lookup_down_context (Some \<lparr>login = ''carol''\<rparr>)) ''B/B'' demo_world
     = (Returned (Rejected (Error ''store unreachable'')),
        \<lparr>store = demo_db,
         trace = [Call_Repositories_getByFullName ''B/B'',
                  Call_Entries_getByRepoFullName ''B/B'']\<rparr>)
   \<and> submitRepository (store_context (Some \<lparr>login = ''carol''\<rparr>)) ''A/A'' demo_world
     = (Returned (Rejected (Error ''This repository has already been added.'')),
        \<lparr>store = demo_db,
         trace = [Call_Repositories_getByFullName ''A/A'',
                  Call_Entries_getByRepoFullName ''A/A'']\<rparr>)
   \<and> submitRepository (write_down_context (Some \<lparr>login = ''carol''\<rparr>)) ''B/B'' demo_world
     = (Returned (Rejected (Error ''write refused'')),
        \<lparr>store = demo_db,
         trace = [Call_Repositories_getByFullName ''B/B'',
                  Call_Entries_getByRepoFullName ''B/B'',
                  Call_Entries_submitRepository ''B/B'' ''carol'']\<rparr>)
   \<and> submitRepository (store_context (Some \<lparr>login = ''carol''\<rparr>)) ''B/B'' demo_world
     = (Returned (Fulfilled (Some
          \<lparr>entry_repo = ''B/B'', entry_submitter = ''carol'', entry_created = 1,
           score = 0, commentsCount = 0\<rparr>)),
        \<lparr>store = demo_db
           \<lparr>db_entries :=
              [\<lparr>entry_repo = ''A/A'', entry_submitter = ''alice'', entry_created = 0\<rparr>,
               \<lparr>entry_repo = ''B/B'', entry_submitter = ''carol'', entry_created = 1\<rparr>],
            db_clock := 2\<rparr>,
         trace = [Call_Repositories_getByFullName ''B/B'',
                  Call_Entries_getByRepoFullName ''B/B'',
                  Call_Entries_submitRepository ''B/B'' ''carol'',
                  Call_Entries_getByRepoFullName ''B/B'']\<rparr>)"
proof -
  let ?u = "\<lparr>login = ''carol''\<rparr>"
  let ?ctx = "store_context (Some ?u)"
  let ?dir = "directory_down_context (Some ?u)"
  let ?look = "lookup_down_context (Some ?u)"
  let ?wr = "write_down_context (Some ?u)"
  have auth: "user ?ctx = Some ?u"
    by (simp add: store_context_def)
  have auth_dir: "user ?dir = Some ?u"
    by (simp add: store_context_def down_defs)
  have auth_look: "user ?look = Some ?u"
    by (simp add: store_context_def down_defs)
  have auth_wr: "user ?wr = Some ?u"
    by (simp add: store_context_def down_defs)
  \<comment> \<open>the directory call is rejected\<close>
  have dir_down: "Repositories_getByFullName ?dir ''B/B'' (store demo_world)
                    = (Inl (Error ''directory unreachable''), demo_db)"
    by (simp add: store_defs down_defs)
  from submitRepository_order [OF auth_dir, where repoName = "''B/B''" and w = demo_world
      and err = "Error ''directory unreachable''" and ?s1.0 = demo_db] dir_down
  have a: "submitRepository ?dir ''B/B'' demo_world
     = (Returned (Rejected (Error ''directory unreachable'')),
        \<lparr>store = demo_db, trace = [Call_Repositories_getByFullName ''B/B'']\<rparr>)"
    by (simp add: demo_world_def)
  \<comment> \<open>the directory does not know the repository\<close>
  have unknown: "Repositories_getByFullName ?ctx ''C/C'' (store demo_world) = (Inr None, demo_db)"
    by (simp add: store_defs)
  from submitRepository_order [OF auth, where repoName = "''C/C''" and w = demo_world
      and ?s1.0 = demo_db] unknown
  have b: "submitRepository ?ctx ''C/C'' demo_world
     = (Returned (Rejected (Error (unknown_repository_message ''C/C''))),
        \<lparr>store = demo_db, trace = [Call_Repositories_getByFullName ''C/C'']\<rparr>)"
    by (simp add: demo_world_def)
  \<comment> \<open>the entry lookup is rejected\<close>
  have look_dir: "Repositories_getByFullName ?look ''B/B'' (store demo_world)
                    = (Inr (Some ''B/B''), demo_db)"
    by (simp add: store_defs down_defs)
  have look_down: "Entries_getByRepoFullName ?look ''B/B'' demo_db
                    = (Inl (Error ''store unreachable''), demo_db)"
    by (simp add: store_defs down_defs)
  from submitRepository_order [OF auth_look, where repoName = "''B/B''" and w = demo_world
      and ?s1.0 = demo_db and r = "''B/B''" and err = "Error ''store unreachable''"
      and ?s2.0 = demo_db] look_dir look_down
  have c: "submitRepository ?look ''B/B'' demo_world
     = (Returned (Rejected (Error ''store unreachable'')),
        \<lparr>store = demo_db,
         trace = [Call_Repositories_getByFullName ''B/B'',
                  Call_Entries_getByRepoFullName ''B/B'']\<rparr>)"
    by (simp add: demo_world_def)
  \<comment> \<open>the repository already has an entry\<close>
  have known_A: "Repositories_getByFullName ?ctx ''A/A'' (store demo_world)
                   = (Inr (Some ''A/A''), demo_db)"
    by (simp add: store_defs)
  have entry_A: "Entries_getByRepoFullName ?ctx ''A/A'' demo_db
                   = (Inr (Some \<lparr>entry_repo = ''A/A'', entry_submitter = ''alice'',
                        entry_created = 0, score = 1, commentsCount = 0\<rparr>), demo_db)"
    by (simp add: store_defs)
  from submitRepository_order [OF auth, where repoName = "''A/A''" and w = demo_world
      and ?s1.0 = demo_db and r = "''A/A''" and ?s2.0 = demo_db] known_A entry_A
  have d: "submitRepository ?ctx ''A/A'' demo_world
     = (Returned (Rejected (Error ''This repository has already been added.'')),
        \<lparr>store = demo_db,
         trace = [Call_Repositories_getByFullName ''A/A'',
                  Call_Entries_getByRepoFullName ''A/A'']\<rparr>)"
    by (simp add: demo_world_def)
  \<comment> \<open>the creation is rejected\<close>
  have wr_dir: "Repositories_getByFullName ?wr ''B/B'' (store demo_world)
                    = (Inr (Some ''B/B''), demo_db)"
    by (simp add: store_defs down_defs)
  have wr_none: "Entries_getByRepoFullName ?wr ''B/B'' demo_db = (Inr None, demo_db)"
    by (simp add: store_defs down_defs)
  have wr_down: "Entries_submitRepository ?wr ''B/B'' (login ?u) demo_db
                    = (Inl (Error ''write refused''), demo_db)"
    by (simp add: store_defs down_defs)
  from submitRepository_order [OF auth_wr, where repoName = "''B/B''" and w = demo_world
      and ?s1.0 = demo_db and r = "''B/B''" and ?s2.0 = demo_db
      and err = "Error ''write refused''" and ?s3.0 = demo_db] wr_dir wr_none wr_down
  have e: "submitRepository ?wr ''B/B'' demo_world
     = (Returned (Rejected (Error ''write refused'')),
        \<lparr>store = demo_db,
         trace = [Call_Repositories_getByFullName ''B/B'',
                  Call_Entries_getByRepoFullName ''B/B'',
                  Call_Entries_submitRepository ''B/B'' ''carol'']\<rparr>)"
    by (simp add: demo_world_def)
  \<comment> \<open>both checks pass\<close>
  have known_B: "Repositories_getByFullName ?ctx ''B/B'' (store demo_world)
                   = (Inr (Some ''B/B''), demo_db)"
    by (simp add: store_defs)
  have entry_B: "Entries_getByRepoFullName ?ctx ''B/B'' demo_db = (Inr None, demo_db)"
    by (simp add: store_defs)
  let ?db' = "demo_db
           \<lparr>db_entries :=
              [\<lparr>entry_repo = ''A/A'', entry_submitter = ''alice'', entry_created = 0\<rparr>,
               \<lparr>entry_repo = ''B/B'', entry_submitter = ''carol'', entry_created = 1\<rparr>],
            db_clock := 2\<rparr>"
  have create_B: "Entries_submitRepository ?ctx ''B/B'' (login ?u) demo_db = (Inr (), ?db')"
    by (simp add: store_defs)
  have reread_B: "Entries_getByRepoFullName ?ctx ''B/B'' ?db'
                   = (Inr (Some \<lparr>entry_repo = ''B/B'', entry_submitter = ''carol'',
                        entry_created = 1, score = 0, commentsCount = 0\<rparr>), ?db')"
    by (simp add: store_defs)
  from submitRepository_order [OF auth, where repoName = "''B/B''" and w = demo_world
      and ?s1.0 = demo_db and r = "''B/B''" and ?s2.0 = demo_db and x = "()"
      and ?s3.0 = ?db' and ?s4.0 = ?db'
      and res = "Inr (Some \<lparr>entry_repo = ''B/B'', entry_submitter = ''carol'',
                        entry_created = 1, score = 0, commentsCount = 0\<rparr>)"]
    known_B entry_B create_B reread_B
  have f: "submitRepository ?ctx ''B/B'' demo_world
     = (Returned (Fulfilled (Some
          \<lparr>entry_repo = ''B/B'', entry_submitter = ''carol'', entry_created = 1,
           score = 0, commentsCount = 0\<rparr>)),
        \<lparr>store = ?db',
         trace = [Call_Repositories_getByFullName ''B/B'',
                  Call_Entries_getByRepoFullName ''B/B'',
                  Call_Entries_submitRepository ''B/B'' ''carol'',
                  Call_Entries_getByRepoFullName ''B/B'']\<rparr>)"
    by (simp add: demo_world_def settled_of_def)
  from auth a b c d e f show ?thesis by simp
qed

section \<open>vote: the recorded value and the reread\<close>

text \<open>
  C5: for a caller with a user, the vote type is mapped to a signed value (\<open>UP\<close> to 1,
  \<open>DOWN\<close> to -1, \<open>CANCEL\<close> to 0), the entry store's \<open>voteForEntry\<close> is called with the
  repository, that value and the user's login, and once that call is fulfilled the
  mutation returns what \<open>getByRepoFullName\<close> answers in the store the vote left. When the
  vote call is rejected the mutation is rejected with the same error and nothing is read.
\<close>

theorem vote_records_mapped_value:
  assumes "user ctx = Some u"
  shows "voteValue UP = 1 \<and> voteValue DOWN = - 1 \<and> voteValue CANCEL = 0
       \<and> (Entries_voteForEntry ctx repoName (voteValue vtype) (login u) (store w) = (Inr x, s1)
            \<longrightarrow> vote ctx repoName vtype w
                  = (Returned (settled_of (fst (Entries_getByRepoFullName ctx repoName s1))),
                     w\<lparr>store := snd (Entries_getByRepoFullName ctx repoName s1),
                       trace := trace w
                         @ [Call_Entries_voteForEntry repoName (voteValue vtype) (login u),
                            Call_Entries_getByRepoFullName repoName]\<rparr>))
       \<and> (Entries_voteForEntry ctx repoName (voteValue vtype) (login u) (store w) = (Inl err, s1)
            \<longrightarrow> vote ctx repoName vtype w
                  = (Returned (Rejected err),
                     w\<lparr>store := s1,
                       trace := trace w
                         @ [Call_Entries_voteForEntry repoName (voteValue vtype) (login u)]\<rparr>))"
  using assms by (simp add: vote_def promise_defs split: prod.split)

theorem vote_records_mapped_value_witness:
  "user (store_context (Some \<lparr>login = ''bob''\<rparr>)) = Some \<lparr>login = ''bob''\<rparr>
   \<and> vote (store_context (Some \<lparr>login = ''bob''\<rparr>)) ''A/A'' DOWN demo_world
     = (Returned (Fulfilled (Some
          \<lparr>entry_repo = ''A/A'', entry_submitter = ''alice'', entry_created = 0,
           score = - 1, commentsCount = 0\<rparr>)),
        \<lparr>store = demo_db\<lparr>db_votes := [((''A/A'', ''bob''), - 1)]\<rparr>,
         trace = [Call_Entries_voteForEntry ''A/A'' (- 1) ''bob'',
                  Call_Entries_getByRepoFullName ''A/A'']\<rparr>)
   \<and> vote (store_context (Some \<lparr>login = ''bob''\<rparr>)) ''B/B'' UP demo_world
     = (Returned (Rejected (Error ''UnknownEntry'')),
        \<lparr>store = demo_db, trace = [Call_Entries_voteForEntry ''B/B'' 1 ''bob'']\<rparr>)"
proof -
  let ?ctx = "store_context (Some \<lparr>login = ''bob''\<rparr>)"
  have auth: "user ?ctx = Some \<lparr>login = ''bob''\<rparr>"
    by (simp add: store_context_def)
  have cast: "Entries_voteForEntry ?ctx ''A/A'' (voteValue DOWN) (login \<lparr>login = ''bob''\<rparr>)
                (store demo_world)
              = (Inr (), demo_db\<lparr>db_votes := [((''A/A'', ''bob''), - 1)]\<rparr>)"
    by (simp add: store_defs)
  have unknown: "Entries_voteForEntry ?ctx ''B/B'' (voteValue UP) (login \<lparr>login = ''bob''\<rparr>)
                (store demo_world)
              = (Inl (Error ''UnknownEntry''), demo_db)"
    by (simp add: store_defs)
  from vote_records_mapped_value [OF auth, of "''A/A''" DOWN demo_world] cast
  have a: "vote ?ctx ''A/A'' DOWN demo_world
     = (Returned (Fulfilled (Some
          \<lparr>entry_repo = ''A/A'', entry_submitter = ''alice'', entry_created = 0,
           score = - 1, commentsCount = 0\<rparr>)),
        \<lparr>store = demo_db\<lparr>db_votes := [((''A/A'', ''bob''), - 1)]\<rparr>,
         trace = [Call_Entries_voteForEntry ''A/A'' (- 1) ''bob'',
                  Call_Entries_getByRepoFullName ''A/A'']\<rparr>)"
    by (simp add: store_defs settled_of_def)
  from vote_records_mapped_value [OF auth, of "''B/B''" UP demo_world] unknown
  have b: "vote ?ctx ''B/B'' UP demo_world
     = (Returned (Rejected (Error ''UnknownEntry'')),
        \<lparr>store = demo_db, trace = [Call_Entries_voteForEntry ''B/B'' 1 ''bob'']\<rparr>)"
    by (simp add: demo_world_def)
  from auth a b show ?thesis by simp
qed

section \<open>submitComment: one publication of the fetched comment\<close>

text \<open>
  C6: when \<open>submitComment\<close> succeeds (the caller has a user, the comment is created and the
  comment is fetched by the id the creation assigned: the first element of the array it
  returned), the mutation returns the fetched comment and publishes it, once, on the topic
  \<^verbatim>\<open>commentAdded\<close>, after the fetch. When the creation is rejected the mutation is rejected
  with the same error after that single call, and when the fetch is rejected the mutation
  is rejected with the same error after the creation and the fetch; neither publishes, and neither
  does a caller without a user, for whom the mutation throws at once. In
  every run the publications the mutation adds are exactly one, with the returned comment
  as its payload, when the mutation's promise is fulfilled, and none when the mutation
  throws or its promise is rejected.
\<close>

theorem submitComment_publishes_once:
  "first_id [] = None \<and> first_id (i # rest) = Some i
   \<and> (user ctx = None
    \<longrightarrow> submitComment ctx repoName commentContent w
          = (Thrown (Error ''Must be logged in to submit a comment.''), w))
   \<and> (user ctx = Some u
      \<and> Comments_submitComment ctx repoName (login u) commentContent (store w) = (Inl err, s1)
    \<longrightarrow> submitComment ctx repoName commentContent w
          = (Returned (Rejected err),
             w\<lparr>store := s1,
               trace := trace w
                 @ [Call_Comments_submitComment repoName (login u) commentContent]\<rparr>))
   \<and> (user ctx = Some u
      \<and> Comments_submitComment ctx repoName (login u) commentContent (store w) = (Inr ids, s1)
      \<and> Comments_getCommentById ctx (first_id ids) s1 = (Inl err, s2)
    \<longrightarrow> submitComment ctx repoName commentContent w
          = (Returned (Rejected err),
             w\<lparr>store := s2,
               trace := trace w
                 @ [Call_Comments_submitComment repoName (login u) commentContent,
                    Call_Comments_getCommentById (first_id ids)]\<rparr>))
   \<and> (user ctx = Some u
      \<and> Comments_submitComment ctx repoName (login u) commentContent (store w) = (Inr ids, s1)
      \<and> Comments_getCommentById ctx (first_id ids) s1 = (Inr c, s2)
    \<longrightarrow> submitComment ctx repoName commentContent w
          = (Returned (Fulfilled c),
             w\<lparr>store := s2,
               trace := trace w
                 @ [Call_Comments_submitComment repoName (login u) commentContent,
                    Call_Comments_getCommentById (first_id ids),
                    Pubsub_publish ''commentAdded'' \<lparr>commentAdded = c\<rparr>]\<rparr>))
   \<and> publications (trace (snd (submitComment ctx repoName commentContent w)))
       = publications (trace w)
         @ (case fst (submitComment ctx repoName commentContent w) of
              Returned (Fulfilled c') \<Rightarrow> [(''commentAdded'', \<lparr>commentAdded = c'\<rparr>)]
            | _ \<Rightarrow> [])"
  by (auto simp add: submitComment_def promise_defs pubsub_publish_def COMMENT_ADDED_TOPIC_def
      publications_append first_id_def
      split: prod.splits option.splits sum.splits settled.splits)

theorem submitComment_publishes_once_witness:
  "user (store_context (Some \<lparr>login = ''carol''\<rparr>)) = Some \<lparr>login = ''carol''\<rparr>
   \<and> submitComment (store_context (Some \<lparr>login = ''carol''\<rparr>)) ''B/B'' ''nice'' demo_world
     = (Returned (Rejected (Error ''UnknownEntry'')),
        \<lparr>store = demo_db, trace = [Call_Comments_submitComment ''B/B'' ''carol'' ''nice'']\<rparr>)
   \<and> submitComment (fetch_down_context (Some \<lparr>login = ''carol''\<rparr>)) ''A/A'' ''nice'' demo_world
     = (Returned (Rejected (Error ''store unreachable'')),
        \<lparr>store = demo_db
           \<lparr>db_comments :=
              [\<lparr>comment_id = 1, repository_name = ''A/A'', posted_by = ''carol'',
                content = ''nice'', created_at = 1\<rparr>],
            db_clock := 2\<rparr>,
         trace = [Call_Comments_submitComment ''A/A'' ''carol'' ''nice'',
                  Call_Comments_getCommentById (Some 1)]\<rparr>)
   \<and> submitComment (store_context (Some \<lparr>login = ''carol''\<rparr>)) ''A/A'' ''nice''
        \<lparr>store = demo_db
           \<lparr>db_comments :=
              [\<lparr>comment_id = 1, repository_name = ''A/A'', posted_by = ''bob'',
                content = ''first'', created_at = 0\<rparr>]\<rparr>,
         trace = []\<rparr>
     = (Returned (Fulfilled (Some
          \<lparr>comment_id = 2, repository_name = ''A/A'', posted_by = ''carol'',
           content = ''nice'', created_at = 1\<rparr>)),
        \<lparr>store = demo_db
           \<lparr>db_comments :=
              [\<lparr>comment_id = 1, repository_name = ''A/A'', posted_by = ''bob'',
                content = ''first'', created_at = 0\<rparr>,
               \<lparr>comment_id = 2, repository_name = ''A/A'', posted_by = ''carol'',
                content = ''nice'', created_at = 1\<rparr>],
            db_clock := 2\<rparr>,
         trace = [Call_Comments_submitComment ''A/A'' ''carol'' ''nice'',
                  Call_Comments_getCommentById (Some 2),
                  Pubsub_publish ''commentAdded''
                    \<lparr>commentAdded = Some
                       \<lparr>comment_id = 2, repository_name = ''A/A'', posted_by = ''carol'',
                        content = ''nice'', created_at = 1\<rparr>\<rparr>]\<rparr>)
   \<and> publications (trace (snd
        (submitComment (store_context (Some \<lparr>login = ''carol''\<rparr>)) ''B/B'' ''nice'' demo_world)))
     = []
   \<and> first_id [2, 7] = Some 2
   \<and> user (store_context None) = None
   \<and> submitComment (store_context None) ''A/A'' ''nice'' demo_world
     = (Thrown (Error ''Must be logged in to submit a comment.''), demo_world)"
proof -
  let ?u = "\<lparr>login = ''carol''\<rparr>"
  let ?ctx = "store_context (Some ?u)"
  let ?down = "fetch_down_context (Some ?u)"
  have nobody: "user (store_context None) = None"
    by (simp add: store_context_def)
  from submitComment_publishes_once [where ctx = "store_context None"
      and repoName = "''A/A''" and commentContent = "''nice''" and w = demo_world] nobody
  have refused_nobody: "submitComment (store_context None) ''A/A'' ''nice'' demo_world
     = (Thrown (Error ''Must be logged in to submit a comment.''), demo_world)"
    by simp
  let ?c0 = "\<lparr>comment_id = 1, repository_name = ''A/A'', posted_by = ''bob'',
              content = ''first'', created_at = 0\<rparr>"
  let ?c1 = "\<lparr>comment_id = 1, repository_name = ''A/A'', posted_by = ''carol'',
             content = ''nice'', created_at = 1\<rparr>"
  let ?c2 = "\<lparr>comment_id = 2, repository_name = ''A/A'', posted_by = ''carol'',
             content = ''nice'', created_at = 1\<rparr>"
  let ?db1 = "demo_db\<lparr>db_comments := [?c1], db_clock := 2\<rparr>"
  let ?db0 = "demo_db\<lparr>db_comments := [?c0]\<rparr>"
  let ?db2 = "demo_db\<lparr>db_comments := [?c0, ?c2], db_clock := 2\<rparr>"
  let ?w0 = "\<lparr>store = ?db0, trace = []\<rparr>"
  have auth: "user ?ctx = Some ?u"
    by (simp add: store_context_def)
  have auth_down: "user ?down = Some ?u"
    by (simp add: store_context_def down_defs)
  \<comment> \<open>the creation is rejected: the repository has no entry\<close>
  have refused: "Comments_submitComment ?ctx ''B/B'' (login ?u) ''nice'' (store demo_world)
                   = (Inl (Error ''UnknownEntry''), demo_db)"
    by (simp add: store_defs)
  note inst_a = submitComment_publishes_once [where ctx = ?ctx and u = ?u
      and repoName = "''B/B''" and commentContent = "''nice''" and w = demo_world
      and err = "Error ''UnknownEntry''" and ?s1.0 = demo_db]
  from inst_a auth refused
  have a: "submitComment ?ctx ''B/B'' ''nice'' demo_world
     = (Returned (Rejected (Error ''UnknownEntry'')),
        \<lparr>store = demo_db, trace = [Call_Comments_submitComment ''B/B'' ''carol'' ''nice'']\<rparr>)"
    by (simp add: demo_world_def)
  from inst_a a
  have pubs: "publications (trace (snd (submitComment ?ctx ''B/B'' ''nice'' demo_world))) = []"
    by (simp add: demo_world_def)
  \<comment> \<open>the fetch is rejected\<close>
  have created_down: "Comments_submitComment ?down ''A/A'' (login ?u) ''nice'' (store demo_world)
                   = (Inr [1], ?db1)"
    by (simp add: store_defs down_defs)
  have fetch_down: "Comments_getCommentById ?down (first_id [1]) ?db1
                   = (Inl (Error ''store unreachable''), ?db1)"
    by (simp add: store_defs down_defs)
  from submitComment_publishes_once [where ctx = ?down and u = ?u
      and repoName = "''A/A''" and commentContent = "''nice''" and w = demo_world
      and ids = "[1]" and err = "Error ''store unreachable''" and ?s1.0 = ?db1 and ?s2.0 = ?db1]
    auth_down created_down fetch_down
  have b: "submitComment ?down ''A/A'' ''nice'' demo_world
     = (Returned (Rejected (Error ''store unreachable'')),
        \<lparr>store = ?db1,
         trace = [Call_Comments_submitComment ''A/A'' ''carol'' ''nice'',
                  Call_Comments_getCommentById (Some 1)]\<rparr>)"
    by (simp add: demo_world_def first_id_def)
  \<comment> \<open>success: the second comment of the store gets the id 2\<close>
  have created: "Comments_submitComment ?ctx ''A/A'' (login ?u) ''nice'' (store ?w0)
                   = (Inr [2], ?db2)"
    by (simp add: store_defs)
  have fetched: "Comments_getCommentById ?ctx (first_id [2]) ?db2 = (Inr (Some ?c2), ?db2)"
    by (simp add: store_defs first_id_def)
  from submitComment_publishes_once [where ctx = ?ctx and u = ?u
      and repoName = "''A/A''" and commentContent = "''nice''" and w = ?w0
      and ids = "[2]" and ?s1.0 = ?db2 and c = "Some ?c2" and ?s2.0 = ?db2]
    auth created fetched
  have c: "submitComment ?ctx ''A/A'' ''nice'' ?w0
     = (Returned (Fulfilled (Some ?c2)),
        \<lparr>store = ?db2,
         trace = [Call_Comments_submitComment ''A/A'' ''carol'' ''nice'',
                  Call_Comments_getCommentById (Some 2),
                  Pubsub_publish ''commentAdded'' \<lparr>commentAdded = Some ?c2\<rparr>]\<rparr>)"
    by (simp add: first_id_def)
  have ids: "first_id [2, 7] = Some 2"
    by (rule submitComment_publishes_once
        [where i = 2 and rest = "[7]", THEN conjunct2, THEN conjunct1])
  from auth a b c pubs ids nobody refused_nobody show ?thesis by simp
qed

section \<open>The commentAdded subscription: who receives an event\<close>

lemma apply_op_keeps:
  assumes "h < length bus" and "bus ! h = Some s" and "a \<noteq> Op_cancel h"
  shows "\<exists>s'. h < length (apply_op a bus) \<and> apply_op a bus ! h = Some s'
            \<and> sub_topic s' = sub_topic s \<and> filterPredicate s' = filterPredicate s"
  using assms
  by (cases a) (auto simp add: apply_op_def subscribe_def publish_def cancel_def deliver_def
      nth_append)

lemma apply_op_dead:
  assumes "h < length bus" and "bus ! h = None"
  shows "h < length (apply_op a bus) \<and> apply_op a bus ! h = None"
  using assms
  by (cases a) (auto simp add: apply_op_def subscribe_def publish_def cancel_def
      nth_append nth_list_update)

lemma apply_op_length:
  "h < length bus \<Longrightarrow> h < length (apply_op a bus)"
  by (cases a) (auto simp add: apply_op_def subscribe_def publish_def cancel_def)

lemma run_ops_dead:
  "h < length bus \<Longrightarrow> bus ! h = None
     \<Longrightarrow> h < length (run_ops ops bus) \<and> run_ops ops bus ! h = None"
proof (induction ops arbitrary: bus)
  case Nil
  then show ?case by simp
next
  case (Cons a ops)
  from apply_op_dead [OF Cons.prems, of a] Cons.IH show ?case by simp
qed

lemma run_ops_cancelled:
  "h < length bus \<Longrightarrow> cancels ops h
     \<Longrightarrow> h < length (run_ops ops bus) \<and> run_ops ops bus ! h = None"
proof (induction ops arbitrary: bus)
  case Nil
  then show ?case by simp
next
  case (Cons a ops)
  show ?case
  proof (cases "a = Op_cancel h")
    case True
    with Cons.prems(1) have "h < length (apply_op a bus) \<and> apply_op a bus ! h = None"
      by (simp add: apply_op_def cancel_def)
    then show ?thesis using run_ops_dead by simp
  next
    case False
    with Cons.prems(2) have "cancels ops h"
      by (cases a) auto
    with Cons.IH [OF apply_op_length [OF Cons.prems(1)]] show ?thesis by simp
  qed
qed

lemma run_ops_live:
  "h < length bus \<Longrightarrow> bus ! h = Some s \<Longrightarrow> \<not> cancels ops h
     \<Longrightarrow> \<exists>s'. h < length (run_ops ops bus) \<and> run_ops ops bus ! h = Some s'
            \<and> sub_topic s' = sub_topic s \<and> filterPredicate s' = filterPredicate s"
proof (induction ops arbitrary: bus s)
  case Nil
  then show ?case by simp
next
  case (Cons a ops)
  from Cons.prems(3) have ne: "a \<noteq> Op_cancel h" and rest: "\<not> cancels ops h"
    by auto
  from apply_op_keeps [OF Cons.prems(1,2) ne] obtain s1 where
    s1: "h < length (apply_op a bus)" "apply_op a bus ! h = Some s1"
      "sub_topic s1 = sub_topic s" "filterPredicate s1 = filterPredicate s"
    by blast
  from Cons.IH [OF s1(1,2) rest] s1(3,4) show ?case by simp
qed

lemma events_of_publish:
  "events_of (publish bus topic ev) h
     = (if h < length bus
        then (case bus ! h of None \<Rightarrow> [] | Some s \<Rightarrow> delivered (deliver topic ev s))
        else [])"
  by (simp add: events_of_def publish_def split: option.split)

lemma commentAdded_subscription_receives:
  "events_of
     (publish (run_ops ops (snd (commentAdded_subscribe args bus))) topic
        \<lparr>commentAdded = Some c\<rparr>)
     (fst (commentAdded_subscribe args bus))
   = (if cancels ops (fst (commentAdded_subscribe args bus)) then []
      else events_of (run_ops ops (snd (commentAdded_subscribe args bus)))
             (fst (commentAdded_subscribe args bus))
           @ (if topic = COMMENT_ADDED_TOPIC \<and> repository_name c = repoFullName args
              then [\<lparr>commentAdded = Some c\<rparr>] else []))"
proof -
  let ?s0 = "\<lparr>sub_topic = COMMENT_ADDED_TOPIC,
             filterPredicate = (\<lambda>p. commentAdded_filter p args), delivered = []\<rparr>"
  let ?h = "length bus"
  let ?bus1 = "bus @ [Some ?s0]"
  have sub: "commentAdded_subscribe args bus = (?h, ?bus1)"
    by (simp add: commentAdded_subscribe_def subscribe_def)
  have h: "?h < length ?bus1" and at: "?bus1 ! ?h = Some ?s0"
    by simp_all
  show ?thesis
  proof (cases "cancels ops ?h")
    case True
    from run_ops_cancelled [OF h True] True show ?thesis
      by (simp add: sub events_of_publish)
  next
    case False
    from run_ops_live [OF h at False] obtain s' where
      s': "?h < length (run_ops ops ?bus1)" "run_ops ops ?bus1 ! ?h = Some s'"
        "sub_topic s' = COMMENT_ADDED_TOPIC"
        "filterPredicate s' = (\<lambda>p. commentAdded_filter p args)"
      by auto
    have before: "events_of (run_ops ops ?bus1) ?h = delivered s'"
      using s'(1,2) by (simp add: events_of_def)
    have after: "events_of (publish (run_ops ops ?bus1) topic \<lparr>commentAdded = Some c\<rparr>) ?h
                   = delivered (deliver topic \<lparr>commentAdded = Some c\<rparr> s')"
      using s'(1,2) by (simp add: events_of_publish)
    have "delivered (deliver topic \<lparr>commentAdded = Some c\<rparr> s')
            = delivered s' @ (if topic = COMMENT_ADDED_TOPIC
                                \<and> repository_name c = repoFullName args
                              then [\<lparr>commentAdded = Some c\<rparr>] else [])"
      using s'(3,4) by (auto simp add: deliver_def commentAdded_filter_def)
    with False before after show ?thesis
      by (simp add: sub)
  qed
qed


text \<open>
  C4: a comment-added event is delivered to a live \<open>commentAdded\<close> subscription exactly when
  the repository name of the event's comment equals the subscription's \<open>repoFullName\<close>. For
  a subscription registered by \<open>commentAdded_subscribe\<close> with any arguments, on any bus, and
  after any history of the bus since: unless the subscription was cancelled, a publication
  extends its sequence by the event when the topic is \<^verbatim>\<open>commentAdded\<close> and the names are
  equal, and leaves the sequence as it was otherwise; a cancelled subscription sees nothing.
  The same holds of any registration of that form wherever it stands in the bus. With two
  subscriptions, one on \<^verbatim>\<open>A/A\<close> and one on \<^verbatim>\<open>B/B\<close>, an event for a comment on \<^verbatim>\<open>A/A\<close>
  reaches the first and the second sees nothing.
\<close>

theorem commentAdded_delivery:
  "events_of
     (publish (run_ops ops (snd (commentAdded_subscribe args bus))) topic
        \<lparr>commentAdded = Some c\<rparr>)
     (fst (commentAdded_subscribe args bus))
   = (if cancels ops (fst (commentAdded_subscribe args bus)) then []
      else events_of (run_ops ops (snd (commentAdded_subscribe args bus)))
             (fst (commentAdded_subscribe args bus))
           @ (if topic = COMMENT_ADDED_TOPIC \<and> repository_name c = repoFullName args
              then [\<lparr>commentAdded = Some c\<rparr>] else []))
   \<and> events_of
     (publish
        (pre @ [Some \<lparr>sub_topic = COMMENT_ADDED_TOPIC,
                     filterPredicate = (\<lambda>p. commentAdded_filter p args),
                     delivered = ds\<rparr>] @ post)
        COMMENT_ADDED_TOPIC \<lparr>commentAdded = Some c\<rparr>)
     (length pre)
     = ds @ (if repository_name c = repoFullName args then [\<lparr>commentAdded = Some c\<rparr>] else [])
   \<and> (let ev = \<lparr>commentAdded = Some (c\<lparr>repository_name := ''A/A''\<rparr>)\<rparr>;
           (h1, bus1) = commentAdded_subscribe \<lparr>repoFullName = ''A/A''\<rparr> bus;
           (h2, bus2) = commentAdded_subscribe \<lparr>repoFullName = ''B/B''\<rparr> bus1;
           bus3 = publish bus2 COMMENT_ADDED_TOPIC ev
       in events_of bus3 h1 = [ev] \<and> events_of bus3 h2 = [])"
proof (intro conjI)
  show "events_of
     (publish (run_ops ops (snd (commentAdded_subscribe args bus))) topic
        \<lparr>commentAdded = Some c\<rparr>)
     (fst (commentAdded_subscribe args bus))
   = (if cancels ops (fst (commentAdded_subscribe args bus)) then []
      else events_of (run_ops ops (snd (commentAdded_subscribe args bus)))
             (fst (commentAdded_subscribe args bus))
           @ (if topic = COMMENT_ADDED_TOPIC \<and> repository_name c = repoFullName args
              then [\<lparr>commentAdded = Some c\<rparr>] else []))"
    by (rule commentAdded_subscription_receives)
next
  show "events_of
     (publish
        (pre @ [Some \<lparr>sub_topic = COMMENT_ADDED_TOPIC,
                     filterPredicate = (\<lambda>p. commentAdded_filter p args),
                     delivered = ds\<rparr>] @ post)
        COMMENT_ADDED_TOPIC \<lparr>commentAdded = Some c\<rparr>)
     (length pre)
     = ds @ (if repository_name c = repoFullName args then [\<lparr>commentAdded = Some c\<rparr>] else [])"
    by (simp add: deliver_def commentAdded_filter_def events_of_def publish_def nth_append)
next
  show "let ev = \<lparr>commentAdded = Some (c\<lparr>repository_name := ''A/A''\<rparr>)\<rparr>;
           (h1, bus1) = commentAdded_subscribe \<lparr>repoFullName = ''A/A''\<rparr> bus;
           (h2, bus2) = commentAdded_subscribe \<lparr>repoFullName = ''B/B''\<rparr> bus1;
           bus3 = publish bus2 COMMENT_ADDED_TOPIC ev
       in events_of bus3 h1 = [ev] \<and> events_of bus3 h2 = []"
    by (simp add: deliver_def commentAdded_filter_def
      commentAdded_subscribe_def subscribe_def events_of_def publish_def nth_append Let_def)
qed

theorem commentAdded_delivery_witness:
  "events_of
     (publish
        (run_ops
           [Op_subscribe COMMENT_ADDED_TOPIC (\<lambda>p. commentAdded_filter p \<lparr>repoFullName = ''B/B''\<rparr>),
            Op_publish COMMENT_ADDED_TOPIC \<lparr>commentAdded = Some (comment_on ''A/A'' 1)\<rparr>,
            Op_publish COMMENT_ADDED_TOPIC \<lparr>commentAdded = Some (comment_on ''B/B'' 2)\<rparr>,
            Op_cancel 1]
           (snd (commentAdded_subscribe \<lparr>repoFullName = ''A/A''\<rparr> [])))
        COMMENT_ADDED_TOPIC \<lparr>commentAdded = Some (comment_on ''A/A'' 3)\<rparr>) 0
     = [\<lparr>commentAdded = Some (comment_on ''A/A'' 1)\<rparr>,
        \<lparr>commentAdded = Some (comment_on ''A/A'' 3)\<rparr>]
   \<and> events_of
     (publish
        (run_ops
           [Op_publish COMMENT_ADDED_TOPIC \<lparr>commentAdded = Some (comment_on ''A/A'' 1)\<rparr>]
           (snd (commentAdded_subscribe \<lparr>repoFullName = ''A/A''\<rparr> [])))
        COMMENT_ADDED_TOPIC \<lparr>commentAdded = Some (comment_on ''C/C'' 3)\<rparr>) 0
     = [\<lparr>commentAdded = Some (comment_on ''A/A'' 1)\<rparr>]
   \<and> events_of
     (publish
        (run_ops
           [Op_publish COMMENT_ADDED_TOPIC \<lparr>commentAdded = Some (comment_on ''A/A'' 1)\<rparr>,
            Op_cancel 0]
           (snd (commentAdded_subscribe \<lparr>repoFullName = ''A/A''\<rparr> [])))
        COMMENT_ADDED_TOPIC \<lparr>commentAdded = Some (comment_on ''A/A'' 3)\<rparr>) 0
     = []"
proof -
  let ?args = "\<lparr>repoFullName = ''A/A''\<rparr>"
  let ?e1 = "\<lparr>commentAdded = Some (comment_on ''A/A'' 1)\<rparr>"
  let ?e2 = "\<lparr>commentAdded = Some (comment_on ''B/B'' 2)\<rparr>"
  have h: "fst (commentAdded_subscribe ?args []) = 0"
    by (simp add: commentAdded_subscribe_def subscribe_def)
  let ?ops1 = "[Op_subscribe COMMENT_ADDED_TOPIC (\<lambda>p. commentAdded_filter p \<lparr>repoFullName = ''B/B''\<rparr>),
            Op_publish COMMENT_ADDED_TOPIC ?e1, Op_publish COMMENT_ADDED_TOPIC ?e2, Op_cancel 1]"
  have before1: "events_of (run_ops ?ops1 (snd (commentAdded_subscribe ?args []))) 0 = [?e1]"
    by (simp add: commentAdded_subscribe_def subscribe_def apply_op_def publish_def cancel_def
        deliver_def commentAdded_filter_def events_of_def comment_on_def)
  from commentAdded_delivery [where args = ?args and bus = "[]" and ops = ?ops1
      and topic = COMMENT_ADDED_TOPIC and c = "comment_on ''A/A'' 3", THEN conjunct1]
    h before1
  have a: "events_of
     (publish (run_ops ?ops1 (snd (commentAdded_subscribe ?args [])))
        COMMENT_ADDED_TOPIC \<lparr>commentAdded = Some (comment_on ''A/A'' 3)\<rparr>) 0
     = [?e1, \<lparr>commentAdded = Some (comment_on ''A/A'' 3)\<rparr>]"
    by (simp add: comment_on_def)
  let ?ops2 = "[Op_publish COMMENT_ADDED_TOPIC ?e1]"
  have before2: "events_of (run_ops ?ops2 (snd (commentAdded_subscribe ?args []))) 0 = [?e1]"
    by (simp add: commentAdded_subscribe_def subscribe_def apply_op_def publish_def
        deliver_def commentAdded_filter_def events_of_def comment_on_def)
  from commentAdded_delivery [where args = ?args and bus = "[]" and ops = ?ops2
      and topic = COMMENT_ADDED_TOPIC and c = "comment_on ''C/C'' 3", THEN conjunct1]
    h before2
  have b: "events_of
     (publish (run_ops ?ops2 (snd (commentAdded_subscribe ?args [])))
        COMMENT_ADDED_TOPIC \<lparr>commentAdded = Some (comment_on ''C/C'' 3)\<rparr>) 0
     = [?e1]"
    by (simp add: comment_on_def)
  let ?ops3 = "[Op_publish COMMENT_ADDED_TOPIC ?e1, Op_cancel 0]"
  from commentAdded_delivery [where args = ?args and bus = "[]" and ops = ?ops3
      and topic = COMMENT_ADDED_TOPIC and c = "comment_on ''A/A'' 3", THEN conjunct1]
    h
  have c: "events_of
     (publish (run_ops ?ops3 (snd (commentAdded_subscribe ?args [])))
        COMMENT_ADDED_TOPIC \<lparr>commentAdded = Some (comment_on ''A/A'' 3)\<rparr>) 0
     = []"
    by simp
  from a b c show ?thesis by simp
qed

section \<open>The vote ledger: a repeated vote replaces\<close>

lemma filter_votes_of_others:
  "filter (\<lambda>r. fst (fst r) = e) (filter (\<lambda>r. fst r \<noteq> (e, v)) rows)
     = filter (\<lambda>r. fst (fst r) = e \<and> snd (fst r) \<noteq> v) rows"
  by (induction rows) auto

lemma filter_others_of_others:
  "filter (\<lambda>r. fst (fst r) = e \<and> snd (fst r) \<noteq> v) (filter (\<lambda>r. fst r \<noteq> (e, v)) rows)
     = filter (\<lambda>r. fst (fst r) = e \<and> snd (fst r) \<noteq> v) rows"
  by (induction rows) auto

lemma castVote_known:
  assumes "e \<in> set (map entry_repo (db_entries d))"
  shows "castVote e (Some v) x d
           = Inr (d\<lparr>db_votes := ((e, v), x) # filter (\<lambda>r. fst r \<noteq> (e, v)) (db_votes d)\<rparr>)"
  using assms by (simp add: castVote_def)

lemma castVote_score:
  assumes "castVote e (Some v) x d = Inr d'"
  shows "currentScore d' e = score_of_others d e v + x"
    and "score_of_others d' e v = score_of_others d e v"
    and "db_entries d' = db_entries d"
  using assms
  by (auto simp add: castVote_def currentScore_def score_of_others_def
      filter_votes_of_others filter_others_of_others simp del: filter_filter split: if_splits)

lemma castVotes_last:
  assumes "e \<in> set (map entry_repo (db_entries d))"
  shows "\<exists>d'. castVotes e (Some v) (ts @ [t]) d = Inr d'
            \<and> currentScore d' e = score_of_others d e v + voteValue t"
  using assms
proof (induction ts arbitrary: d)
  case Nil
  then show ?case
    using castVote_score(1) [OF castVote_known [OF Nil]] by (simp add: castVote_known)
next
  case (Cons a ts)
  let ?d1 = "d\<lparr>db_votes := ((e, v), voteValue a) # filter (\<lambda>r. fst r \<noteq> (e, v)) (db_votes d)\<rparr>"
  have step: "castVote e (Some v) (voteValue a) d = Inr ?d1"
    by (rule castVote_known [OF Cons.prems])
  have "e \<in> set (map entry_repo (db_entries ?d1))"
    using Cons.prems by simp
  from Cons.IH [OF this] obtain d' where
    "castVotes e (Some v) (ts @ [t]) ?d1 = Inr d'"
    "currentScore d' e = score_of_others ?d1 e v + voteValue t"
    by blast
  moreover have "score_of_others ?d1 e v = score_of_others d e v"
    by (rule castVote_score(2) [OF step])
  ultimately show ?case
    using step by simp
qed

lemma find_entry:
  "e \<in> set (map entry_repo xs) \<Longrightarrow> \<exists>x. find (\<lambda>y. entry_repo y = e) xs = Some x \<and> entry_repo x = e"
  by (induction xs) auto

lemma vote_store_context:
  assumes "e \<in> set (map entry_repo (db_entries (store w)))"
  shows "\<exists>view. vote (store_context (Some u)) e t w
           = (Returned (Fulfilled (Some view)),
              w\<lparr>store := (store w)\<lparr>db_votes := ((e, login u), voteValue t)
                           # filter (\<lambda>r. fst r \<noteq> (e, login u)) (db_votes (store w))\<rparr>,
                trace := trace w @ [Call_Entries_voteForEntry e (voteValue t) (login u),
                                    Call_Entries_getByRepoFullName e]\<rparr>)
         \<and> score view = score_of_others (store w) e (login u) + voteValue t"
proof -
  let ?d1 = "(store w)\<lparr>db_votes := ((e, login u), voteValue t)
                           # filter (\<lambda>r. fst r \<noteq> (e, login u)) (db_votes (store w))\<rparr>"
  have step: "castVote e (Some (login u)) (voteValue t) (store w) = Inr ?d1"
    by (rule castVote_known [OF assms])
  have "e \<in> set (map entry_repo (db_entries ?d1))"
    using assms by simp
  from find_entry [OF this] obtain x where
    x: "find (\<lambda>y. entry_repo y = e) (db_entries (store w)) = Some x" "entry_repo x = e"
    by auto
  have sc: "currentScore ?d1 e = score_of_others (store w) e (login u) + voteValue t"
    by (rule castVote_score(1) [OF step])
  show ?thesis
    using step x sc
    by (simp add: vote_def promise_defs store_context_def store_voteForEntry_def
        store_getByRepoFullName_def view_of_def)
qed

lemma vote_sequence_store_context:
  assumes "e \<in> set (map entry_repo (db_entries (store w)))"
  shows "e \<in> set (map entry_repo (db_entries (store (vote_sequence (store_context (Some u)) e ts w))))
       \<and> score_of_others (store (vote_sequence (store_context (Some u)) e ts w)) e (login u)
           = score_of_others (store w) e (login u)"
  using assms
proof (induction ts arbitrary: w)
  case Nil
  then show ?case by simp
next
  case (Cons a ts)
  let ?d1 = "(store w)\<lparr>db_votes := ((e, login u), voteValue a)
                           # filter (\<lambda>r. fst r \<noteq> (e, login u)) (db_votes (store w))\<rparr>"
  let ?w1 = "snd (vote (store_context (Some u)) e a w)"
  from vote_store_context [OF Cons.prems, of u a]
  have st: "store ?w1 = ?d1" by auto
  have step: "castVote e (Some (login u)) (voteValue a) (store w) = Inr ?d1"
    by (rule castVote_known [OF Cons.prems])
  have known: "e \<in> set (map entry_repo (db_entries (store ?w1)))"
    using Cons.prems st by simp
  have "score_of_others (store ?w1) e (login u) = score_of_others (store w) e (login u)"
    using castVote_score(2) [OF step] st by simp
  with Cons.IH [OF known] show ?case by simp
qed

text \<open>
  C7: for an entry of the store, after any sequence of votes by one voter the entry's
  score is the score of the other voters plus the value of that voter's last vote; this
  holds of the ledger and of the entry that the \<open>vote\<close> mutation returns when the connector
  is the ledger. A \<open>DOWN\<close> after an \<open>UP\<close> lowers the score by 2, and a \<open>CANCEL\<close> leaves the
  score of the others.
\<close>

theorem repeat_vote_replaces:
  assumes "entryKey \<in> set (map entry_repo (db_entries d))"
  shows "(\<exists>d'. castVotes entryKey (Some voter) (ts @ [t]) d = Inr d'
             \<and> currentScore d' entryKey = score_of_others d entryKey voter + voteValue t)
       \<and> (\<exists>view w'.
             vote (store_context (Some u)) entryKey t
               (vote_sequence (store_context (Some u)) entryKey ts \<lparr>store = d, trace = calls\<rparr>)
               = (Returned (Fulfilled (Some view)), w')
             \<and> score view = score_of_others d entryKey (login u) + voteValue t)
       \<and> (\<exists>d1 d2. castVote entryKey (Some voter) (voteValue UP) d = Inr d1
             \<and> castVote entryKey (Some voter) (voteValue DOWN) d1 = Inr d2
             \<and> currentScore d2 entryKey = currentScore d1 entryKey - 2)
       \<and> (\<exists>d0. castVote entryKey (Some voter) (voteValue CANCEL) d = Inr d0
             \<and> currentScore d0 entryKey = score_of_others d entryKey voter)"
proof (intro conjI)
  show "\<exists>d'. castVotes entryKey (Some voter) (ts @ [t]) d = Inr d'
             \<and> currentScore d' entryKey = score_of_others d entryKey voter + voteValue t"
    by (rule castVotes_last [OF assms])
next
  let ?w = "\<lparr>store = d, trace = calls\<rparr>"
  let ?w1 = "vote_sequence (store_context (Some u)) entryKey ts ?w"
  have "entryKey \<in> set (map entry_repo (db_entries (store ?w)))"
    using assms by simp
  from vote_sequence_store_context [OF this, of u ts]
  have known: "entryKey \<in> set (map entry_repo (db_entries (store ?w1)))"
    and others: "score_of_others (store ?w1) entryKey (login u) = score_of_others d entryKey (login u)"
    by simp_all
  from vote_store_context [OF known, of u t] others
  show "\<exists>view w'. vote (store_context (Some u)) entryKey t ?w1
               = (Returned (Fulfilled (Some view)), w')
             \<and> score view = score_of_others d entryKey (login u) + voteValue t"
    by auto
next
  let ?d1 = "d\<lparr>db_votes := ((entryKey, voter), voteValue UP)
                 # filter (\<lambda>r. fst r \<noteq> (entryKey, voter)) (db_votes d)\<rparr>"
  let ?d2 = "?d1\<lparr>db_votes := ((entryKey, voter), voteValue DOWN)
                 # filter (\<lambda>r. fst r \<noteq> (entryKey, voter)) (db_votes ?d1)\<rparr>"
  have up: "castVote entryKey (Some voter) (voteValue UP) d = Inr ?d1"
    by (rule castVote_known [OF assms])
  have "entryKey \<in> set (map entry_repo (db_entries ?d1))"
    using assms by simp
  then have down: "castVote entryKey (Some voter) (voteValue DOWN) ?d1 = Inr ?d2"
    by (rule castVote_known)
  have "currentScore ?d2 entryKey = currentScore ?d1 entryKey - 2"
    using castVote_score(1) [OF up] castVote_score(1) [OF down] castVote_score(2) [OF up]
    by simp
  with up down show "\<exists>d1 d2. castVote entryKey (Some voter) (voteValue UP) d = Inr d1
             \<and> castVote entryKey (Some voter) (voteValue DOWN) d1 = Inr d2
             \<and> currentScore d2 entryKey = currentScore d1 entryKey - 2"
    by blast
next
  show "\<exists>d0. castVote entryKey (Some voter) (voteValue CANCEL) d = Inr d0
             \<and> currentScore d0 entryKey = score_of_others d entryKey voter"
    using castVote_score(1) [OF castVote_known [OF assms], of voter "voteValue CANCEL"]
      castVote_known [OF assms, of voter "voteValue CANCEL"]
    by simp
qed

theorem repeat_vote_replaces_witness:
  "''A/A'' \<in> set (map entry_repo (db_entries demo_db))
   \<and> (\<exists>d'. castVotes ''A/A'' (Some ''bob'') [UP, DOWN] demo_db = Inr d'
           \<and> currentScore d' ''A/A'' = - 1)
   \<and> (\<exists>view w'.
         vote (store_context (Some \<lparr>login = ''bob''\<rparr>)) ''A/A'' DOWN
           (vote_sequence (store_context (Some \<lparr>login = ''bob''\<rparr>)) ''A/A'' [UP] demo_world)
           = (Returned (Fulfilled (Some view)), w')
         \<and> score view = - 1)
   \<and> currentScore demo_db ''A/A'' = 1"
proof -
  have known: "''A/A'' \<in> set (map entry_repo (db_entries demo_db))"
    by (simp add: demo_db_def)
  have others: "score_of_others demo_db ''A/A'' ''bob'' = 0"
    by (simp add: demo_db_def score_of_others_def)
  have before: "currentScore demo_db ''A/A'' = 1"
    by (simp add: demo_db_def currentScore_def)
  note inst = repeat_vote_replaces [OF known, where voter = "''bob''" and ts = "[UP]"
      and t = DOWN and u = "\<lparr>login = ''bob''\<rparr>" and calls = "[]"]
  from inst others
  have a: "\<exists>d'. castVotes ''A/A'' (Some ''bob'') [UP, DOWN] demo_db = Inr d'
           \<and> currentScore d' ''A/A'' = - 1"
    by simp
  from inst others
  have b: "\<exists>view w'.
         vote (store_context (Some \<lparr>login = ''bob''\<rparr>)) ''A/A'' DOWN
           (vote_sequence (store_context (Some \<lparr>login = ''bob''\<rparr>)) ''A/A'' [UP] demo_world)
           = (Returned (Fulfilled (Some view)), w')
         \<and> score view = - 1"
    by (simp add: demo_world_def)
  from known a b before show ?thesis by blast
qed

section \<open>Enrichment: the error path of the callbacks\<close>

text \<open>
  C8: when the geocoder or the HTTP client calls back with an error (and, as an error
  callback does, without a result), the promise of \<open>getLocation\<close> or \<open>getWeather\<close> is
  rejected with that error; but the callback does not stop there: it goes on to read the
  missing result, and that raises an exception inside the library's callback, outside the
  promise.
\<close>

theorem enrichment_error_escapes_callback:
  "getLocation show_num (\<lambda>place. (Some e, None)) place
     = \<lparr>promise_state = Some (Rejected e),
        uncaught = Some (TypeError ''Cannot read property 0 of undefined'')\<rparr>
   \<and> getWeather show_num darkSkySecret parse (\<lambda>url. (Some e, None)) coords
     = \<lparr>promise_state = Some (Rejected e),
        uncaught = Some (SyntaxError ''Unexpected token u in JSON at position 0'')\<rparr>"
  by (simp add: getLocation_def getLocation_callback_def getWeather_def
      getWeather_callback_def JSON_parse_def settle_def)

end
